theory Spec2Isabelle
  imports Complex_Main "HOL-Library.Sublist"
begin

section \<open>The MPTraj dataset loader (mattertune/data/mptraj.py)\<close>

text \<open>
  The module holds a configuration class and a dataset class. The dataset's constructor
  fetches one split of an upstream collection, converts every raw record into an ASE
  \<open>Atoms\<close> object carrying its labels, keeps the objects that pass \<open>_filter_atoms\<close>, and
  stores them in \<open>atoms_list\<close>. Python exceptions are values of \<open>error\<close>; a function that
  can raise returns \<open>error + 'a\<close> with \<open>Inl\<close> for the exception. Floating-point numbers
  are read as reals; the only arithmetic done on them is the mean of two entries in the
  stress conversion.
\<close>

subsection \<open>Exceptions\<close>

text \<open>
  \<open>KeyError k\<close>: a dictionary has no key \<open>k\<close>. \<open>ValueError\<close>: a library constructor rejects
  a shape, or \<open>.item()\<close> is called on an array that has not exactly one element.
  \<open>IndexError\<close>: a list or an array is read out of range. \<open>UpstreamError\<close>: whatever the
  upstream loader raises. None of them has a field for a position in the stream: the
  module wraps no exception and counts no records.
\<close>

datatype error = KeyError string | ValueError | IndexError | UpstreamError string

text \<open>
  Sequencing: \<open>and_then r f\<close> runs \<open>f\<close> on the value of \<open>r\<close>, and is the exception of
  \<open>r\<close> when \<open>r\<close> raised, as a statement that follows a raising one is not run.
\<close>

definition and_then :: "error + 'a \<Rightarrow> ('a \<Rightarrow> error + 'b) \<Rightarrow> error + 'b" where
  "and_then r f = (case r of Inl e \<Rightarrow> Inl e | Inr x \<Rightarrow> f x)"

subsection \<open>Python list indexing\<close>

text \<open>
  \<open>xs[i]\<close> for an integer \<open>i\<close>: an index below zero is counted from the end, and an index
  outside \<open>-len(xs) .. len(xs) - 1\<close> raises IndexError.
\<close>

definition list_getitem :: "'a list \<Rightarrow> int \<Rightarrow> error + 'a" where
  "list_getitem xs i =
     (if 0 \<le> i \<and> i < int (length xs) then Inr (xs ! nat i)
      else if i < 0 \<and> - int (length xs) \<le> i then Inr (xs ! nat (i + int (length xs)))
      else Inl IndexError)"

subsection \<open>The configuration\<close>

datatype split_name = Train | Val | Test

text \<open>
  The fields of \<open>MPTrajDatasetConfig\<close>. The discriminator \<open>type\<close> has the single value
  \<open>"mptraj"\<close> and is left out. \<open>None\<close> is Python's \<open>None\<close>.
\<close>

record MPTrajDatasetConfig =
  split :: split_name
  min_num_atoms :: "int option"
  max_num_atoms :: "int option"
  elements :: "string list option"

text \<open>
  Constructing a configuration. The class body declares the four typed fields with their
  defaults and one method; it declares no validator, so every combination of well-typed
  field values is accepted. The field types are carried by the HOL types.
\<close>

definition MPTrajDatasetConfig_new ::
  "split_name \<Rightarrow> int option \<Rightarrow> int option \<Rightarrow> string list option \<Rightarrow> error + MPTrajDatasetConfig" where
  "MPTrajDatasetConfig_new s mn mx els =
     Inr \<lparr>split = s, min_num_atoms = mn, max_num_atoms = mx, elements = els\<rparr>"

text \<open>The configuration with every field at its default.\<close>

definition MPTrajDatasetConfig_default :: MPTrajDatasetConfig where
  "MPTrajDatasetConfig_default =
     \<lparr>split = Train, min_num_atoms = Some 5, max_num_atoms = None, elements = None\<rparr>"

subsection \<open>Raw records\<close>

text \<open>
  A raw record is a dictionary with the six keys the conversion reads. Each field is
  \<open>None\<close> when the key is missing and otherwise holds the array as nested lists: an
  \<open>N \<times> 3\<close> matrix is a list of rows. \<open>corrected_total_energy\<close> is the flat content of
  the numeric container that \<open>.item()\<close> is called on.
\<close>

record entry =
  positions :: "real list list option"
  numbers :: "int list option"
  cell :: "real list list option"
  corrected_total_energy :: "real list option"
  forces :: "real list list option"
  stress :: "real list list option"

definition dict_getitem :: "string \<Rightarrow> 'a option \<Rightarrow> error + 'a" where
  "dict_getitem k v = (case v of None \<Rightarrow> Inl (KeyError k) | Some x \<Rightarrow> Inr x)"

subsection \<open>The structure container (ase.Atoms) and its calculator\<close>

text \<open>
  The results a \<open>SinglePointCalculator\<close> stores, under the keys \<open>energy\<close>, \<open>forces\<close> and
  \<open>stress\<close>.
\<close>

record SinglePointCalculator =
  results_energy :: real
  results_forces :: "real list list"
  results_stress :: "real list"

record Atoms =
  arrays_positions :: "real list list"
  arrays_numbers :: "int list"
  atoms_cell :: "real list list"
  pbc :: bool
  calc :: "SinglePointCalculator option"

text \<open>
  Arrays are nested lists. \<open>is_shape r c A\<close>: the array has \<open>r\<close> rows of \<open>c\<close> entries.
  \<open>is_rectangular A\<close>: all rows have one length, so that \<open>np.array(A, float)\<close> is a
  numeric array; on rows of different lengths that call raises ValueError.
\<close>

definition is_shape :: "nat \<Rightarrow> nat \<Rightarrow> 'a list list \<Rightarrow> bool" where
  "is_shape r c A = (length A = r \<and> list_all (\<lambda>row. length row = c) A)"

definition is_rectangular :: "'a list list \<Rightarrow> bool" where
  "is_rectangular A =
     (case A of [] \<Rightarrow> True | r # rs \<Rightarrow> list_all (\<lambda>row. length row = length r) rs)"

text \<open>
  \<open>Atoms(positions=..., numbers=..., cell=..., pbc=True)\<close>. ASE stores \<open>numbers\<close>, takes
  the cell as a \<open>3 \<times> 3\<close> matrix and stores \<open>positions\<close>, which must have one row of three
  coordinates per atomic number; it raises ValueError otherwise. No calculator is
  attached yet.
\<close>

definition Atoms_new :: "real list list \<Rightarrow> int list \<Rightarrow> real list list \<Rightarrow> bool \<Rightarrow> error + Atoms" where
  "Atoms_new ps zs c p =
     (if \<not> is_shape 3 3 c then Inl ValueError
      else if \<not> is_shape (length zs) 3 ps then Inl ValueError
      else Inr \<lparr>arrays_positions = ps, arrays_numbers = zs, atoms_cell = c, pbc = p,
                calc = None\<rparr>)"

text \<open>\<open>len(atoms)\<close>: the number of rows of the positions array.\<close>

definition len_atoms :: "Atoms \<Rightarrow> int" where
  "len_atoms atoms = int (length (arrays_positions atoms))"

text \<open>
  \<open>ase.data.chemical_symbols\<close>: the periodic table as a list indexed by atomic number,
  with the placeholder \<open>X\<close> at index 0.
\<close>

definition chemical_symbols :: "string list" where
  "chemical_symbols =
     [''X'', ''H'', ''He'', ''Li'', ''Be'', ''B'', ''C'', ''N'', ''O'', ''F'', ''Ne'',
      ''Na'', ''Mg'', ''Al'', ''Si'', ''P'', ''S'', ''Cl'', ''Ar'',
      ''K'', ''Ca'', ''Sc'', ''Ti'', ''V'', ''Cr'', ''Mn'', ''Fe'', ''Co'', ''Ni'', ''Cu'',
      ''Zn'', ''Ga'', ''Ge'', ''As'', ''Se'', ''Br'', ''Kr'',
      ''Rb'', ''Sr'', ''Y'', ''Zr'', ''Nb'', ''Mo'', ''Tc'', ''Ru'', ''Rh'', ''Pd'', ''Ag'',
      ''Cd'', ''In'', ''Sn'', ''Sb'', ''Te'', ''I'', ''Xe'',
      ''Cs'', ''Ba'', ''La'', ''Ce'', ''Pr'', ''Nd'', ''Pm'', ''Sm'', ''Eu'', ''Gd'', ''Tb'',
      ''Dy'', ''Ho'', ''Er'', ''Tm'', ''Yb'', ''Lu'',
      ''Hf'', ''Ta'', ''W'', ''Re'', ''Os'', ''Ir'', ''Pt'', ''Au'', ''Hg'', ''Tl'', ''Pb'',
      ''Bi'', ''Po'', ''At'', ''Rn'',
      ''Fr'', ''Ra'', ''Ac'', ''Th'', ''Pa'', ''U'', ''Np'', ''Pu'', ''Am'', ''Cm'', ''Bk'',
      ''Cf'', ''Es'', ''Fm'', ''Md'', ''No'', ''Lr'',
      ''Rf'', ''Db'', ''Sg'', ''Bh'', ''Hs'', ''Mt'', ''Ds'', ''Rg'', ''Cn'', ''Nh'', ''Fl'',
      ''Mc'', ''Lv'', ''Ts'', ''Og'']"

text \<open>
  \<open>atoms.get_chemical_symbols()\<close>: the symbol of every atom, in order, read from the
  table at the atom's number. A number the table does not have raises IndexError.
\<close>

fun symbols_of :: "int list \<Rightarrow> error + string list" where
  "symbols_of [] = Inr []"
| "symbols_of (z # zs) =
     (case list_getitem chemical_symbols z of
        Inl e \<Rightarrow> Inl e
      | Inr s \<Rightarrow> (case symbols_of zs of Inl e \<Rightarrow> Inl e | Inr ss \<Rightarrow> Inr (s # ss)))"

definition get_chemical_symbols :: "Atoms \<Rightarrow> error + string list" where
  "get_chemical_symbols atoms = symbols_of (arrays_numbers atoms)"

subsection \<open>Record conversion\<close>

text \<open>\<open>a.item()\<close>: the single element of an array, ValueError for any other size.\<close>

definition item :: "real list \<Rightarrow> error + real" where
  "item a = (case a of [x] \<Rightarrow> Inr x | _ \<Rightarrow> Inl ValueError)"

text \<open>
  Modelled from the spec: \<open>ase.stress.full_3x3_to_voigt_6_stress\<close> is imported from the ASE
  library and its body is not part of the module. The spec describes it as the
  flattening of the symmetric \<open>3 \<times> 3\<close> stress tensor into the six components
  (xx, yy, zz, yz, xz, xy), with symmetry assumed and not checked. Each off-diagonal
  component is the mean of the two mirrored entries, as current ASE releases compute it;
  on a symmetric tensor that is the entry itself. Reading an entry the array does not have raises
  IndexError.
\<close>

definition full_3x3_to_voigt_6_stress :: "real list list \<Rightarrow> error + real list" where
  "full_3x3_to_voigt_6_stress S =
     (if is_rectangular S \<and> 3 \<le> length S \<and> 3 \<le> length (S ! 0)
      then Inr [S ! 0 ! 0, S ! 1 ! 1, S ! 2 ! 2,
                (S ! 1 ! 2 + S ! 2 ! 1) / 2,
                (S ! 0 ! 2 + S ! 2 ! 0) / 2,
                (S ! 0 ! 1 + S ! 1 ! 0) / 2]
      else Inl IndexError)"

text \<open>
  \<open>SinglePointCalculator(atoms, **labels)\<close> stores the energy as it is and the other two
  results as numeric arrays. Neither it nor the module compares the shape of \<open>forces\<close>
  with the number of atoms.
\<close>

definition SinglePointCalculator_new ::
  "Atoms \<Rightarrow> real \<Rightarrow> real list list \<Rightarrow> real list \<Rightarrow> error + SinglePointCalculator" where
  "SinglePointCalculator_new atoms e f s =
     (if \<not> is_rectangular f then Inl ValueError
      else Inr \<lparr>results_energy = e, results_forces = f, results_stress = s\<rparr>)"

text \<open>
  \<open>_load_atoms_from_entry\<close>. The keys are read in the order of the source: the three
  arguments of \<open>Atoms\<close>, then the three labels, then the calculator; the first exception
  ends the conversion.
\<close>

definition load_atoms_from_entry :: "entry \<Rightarrow> error + Atoms" where
  "load_atoms_from_entry en =
     and_then (dict_getitem ''positions'' (positions en)) (\<lambda>ps.
     and_then (dict_getitem ''numbers'' (numbers en)) (\<lambda>zs.
     and_then (dict_getitem ''cell'' (cell en)) (\<lambda>c.
     and_then (Atoms_new ps zs c True) (\<lambda>atoms.
     and_then (dict_getitem ''corrected_total_energy'' (corrected_total_energy en)) (\<lambda>en_arr.
     and_then (item en_arr) (\<lambda>en_val.
     and_then (dict_getitem ''forces'' (forces en)) (\<lambda>f.
     and_then (dict_getitem ''stress'' (stress en)) (\<lambda>st.
     and_then (full_3x3_to_voigt_6_stress st) (\<lambda>v.
     and_then (SinglePointCalculator_new atoms en_val f v) (\<lambda>calc_obj.
       Inr (atoms\<lparr>calc := Some calc_obj\<rparr>)))))))))))"

subsection \<open>The filter\<close>

text \<open>
  \<open>_filter_atoms\<close>: the three tests in the order of the source. The symbols are computed
  only when \<open>elements\<close> is set and both size tests have passed, so only then can the
  lookup of a symbol raise.
\<close>

definition filter_atoms :: "MPTrajDatasetConfig \<Rightarrow> Atoms \<Rightarrow> error + bool" where
  "filter_atoms cfg atoms =
     (if (case min_num_atoms cfg of None \<Rightarrow> False | Some m \<Rightarrow> len_atoms atoms < m)
      then Inr False
      else if (case max_num_atoms cfg of None \<Rightarrow> False | Some M \<Rightarrow> len_atoms atoms > M)
      then Inr False
      else (case elements cfg of
              None \<Rightarrow> Inr True
            | Some els \<Rightarrow>
                (case get_chemical_symbols atoms of
                   Inl e \<Rightarrow> Inl e
                 | Inr syms \<Rightarrow> if \<not> (set syms \<subseteq> set els) then Inr False else Inr True)))"

subsection \<open>The dataset\<close>

record MPTrajDataset =
  config :: MPTrajDatasetConfig
  atoms_list :: "Atoms list"

text \<open>The progress bar: the count of updates, the announced total, and whether it is closed.\<close>

record tqdm =
  tqdm_n :: nat
  tqdm_total :: nat
  tqdm_closed :: bool

definition tqdm_new :: "'a list \<Rightarrow> tqdm" where
  "tqdm_new xs = \<lparr>tqdm_n = 0, tqdm_total = length xs, tqdm_closed = False\<rparr>"

definition tqdm_update :: "nat \<Rightarrow> tqdm \<Rightarrow> tqdm" where
  "tqdm_update k pb = pb\<lparr>tqdm_n := tqdm_n pb + k\<rparr>"

definition tqdm_close :: "tqdm \<Rightarrow> tqdm" where
  "tqdm_close pb = pb\<lparr>tqdm_closed := True\<rparr>"

text \<open>
  The loop of \<open>__init__\<close> over the fetched records. The state is \<open>atoms_list\<close> and the
  progress bar. An exception of the conversion or of the filter leaves the loop at once;
  nothing catches it.
\<close>

fun load_loop ::
  "MPTrajDatasetConfig \<Rightarrow> entry list \<Rightarrow> Atoms list \<times> tqdm \<Rightarrow> error + Atoms list \<times> tqdm" where
  "load_loop cfg [] st = Inr st"
| "load_loop cfg (en # rest) (al, pb) =
     (case load_atoms_from_entry en of
        Inl e \<Rightarrow> Inl e
      | Inr atoms \<Rightarrow>
          (case filter_atoms cfg atoms of
             Inl e \<Rightarrow> Inl e
           | Inr keep \<Rightarrow>
               load_loop cfg rest
                 (if keep then al @ [atoms] else al, tqdm_update 1 pb)))"

text \<open>
  \<open>MPTrajDataset.__init__\<close>. The upstream collection is the parameter \<open>source\<close>: what
  \<open>datasets.load_dataset\<close> returns for a split, the records in iteration order or the
  exception it raises. The result is the dataset object and the closed progress bar.
\<close>

definition MPTrajDataset_init ::
  "(split_name \<Rightarrow> error + entry list) \<Rightarrow> MPTrajDatasetConfig \<Rightarrow> error + MPTrajDataset \<times> tqdm" where
  "MPTrajDataset_init source cfg =
     (case source (split cfg) of
        Inl e \<Rightarrow> Inl e
      | Inr dataset \<Rightarrow>
          (case load_loop cfg dataset ([], tqdm_new dataset) of
             Inl e \<Rightarrow> Inl e
           | Inr (al, pb) \<Rightarrow> Inr (\<lparr>config = cfg, atoms_list = al\<rparr>, tqdm_close pb)))"

text \<open>\<open>MPTrajDatasetConfig.create_dataset\<close>.\<close>

definition create_dataset ::
  "(split_name \<Rightarrow> error + entry list) \<Rightarrow> MPTrajDatasetConfig \<Rightarrow> error + MPTrajDataset \<times> tqdm" where
  "create_dataset source cfg = MPTrajDataset_init source cfg"

text \<open>
  \<open>__getitem__\<close> and \<open>__len__\<close>. \<open>__getitem__\<close> returns its result together with the
  dataset after the call, which it leaves as it was.
\<close>

definition MPTrajDataset_getitem :: "MPTrajDataset \<Rightarrow> int \<Rightarrow> (error + Atoms) \<times> MPTrajDataset" where
  "MPTrajDataset_getitem ds idx = (list_getitem (atoms_list ds) idx, ds)"

definition MPTrajDataset_len :: "MPTrajDataset \<Rightarrow> int" where
  "MPTrajDataset_len ds = int (length (atoms_list ds))"

subsection \<open>Sample data\<close>

text \<open>
  The stress tensor of the Voigt example: diagonal \<open>(1, 2, 3)\<close>, \<open>S[1][2] = S[2][1] = 4\<close>,
  \<open>S[0][2] = S[2][0] = 5\<close>, \<open>S[0][1] = S[1][0] = 6\<close>.
\<close>

definition sample_stress :: "real list list" where
  "sample_stress = [[1, 6, 5], [6, 2, 4], [5, 4, 3]]"

text \<open>
  A well-formed raw record with the given atomic numbers: every atom at the origin of a
  unit cube, zero energy and forces, and the sample stress.
\<close>

definition sample_entry :: "int list \<Rightarrow> entry" where
  "sample_entry zs =
     \<lparr>positions = Some (map (\<lambda>z. [0, 0, 0]) zs),
      numbers = Some zs,
      cell = Some [[1, 0, 0], [0, 1, 0], [0, 0, 1]],
      corrected_total_energy = Some [0],
      forces = Some (map (\<lambda>z. [0, 0, 0]) zs),
      stress = Some sample_stress\<rparr>"

text \<open>The structure that record converts to.\<close>

definition sample_atoms :: "int list \<Rightarrow> Atoms" where
  "sample_atoms zs =
     \<lparr>arrays_positions = map (\<lambda>z. [0, 0, 0]) zs,
      arrays_numbers = zs,
      atoms_cell = [[1, 0, 0], [0, 1, 0], [0, 0, 1]],
      pbc = True,
      calc = Some \<lparr>results_energy = 0,
                    results_forces = map (\<lambda>z. [0, 0, 0]) zs,
                    results_stress = [1, 2, 3, 4, 5, 6]\<rparr>\<rparr>"

text \<open>An upstream collection whose every split holds the same records.\<close>

definition sample_source :: "entry list \<Rightarrow> split_name \<Rightarrow> error + entry list" where
  "sample_source es s = Inr es"

section \<open>Properties\<close>

subsection \<open>The sample data\<close>

lemma voigt_sample: "full_3x3_to_voigt_6_stress sample_stress = Inr [1, 2, 3, 4, 5, 6]"
  by (simp add: full_3x3_to_voigt_6_stress_def sample_stress_def is_rectangular_def)

lemma is_rectangular_map_const: "is_rectangular (map (\<lambda>z. r) zs)"
  by (cases zs) (simp_all add: is_rectangular_def list_all_iff)

lemma load_sample: "load_atoms_from_entry (sample_entry zs) = Inr (sample_atoms zs)"
  by (simp add: load_atoms_from_entry_def sample_entry_def sample_atoms_def and_then_def
      dict_getitem_def Atoms_new_def is_shape_def item_def voigt_sample
      SinglePointCalculator_new_def list_all_iff is_rectangular_map_const)

lemma load_sample_no_forces:
  "load_atoms_from_entry ((sample_entry zs)\<lparr>forces := None\<rparr>) = Inl (KeyError ''forces'')"
  by (simp add: load_atoms_from_entry_def sample_entry_def and_then_def
      dict_getitem_def Atoms_new_def is_shape_def item_def list_all_iff)

lemma len_sample: "len_atoms (sample_atoms zs) = int (length zs)"
  by (simp add: len_atoms_def sample_atoms_def)

lemma symbol_Li: "list_getitem chemical_symbols 3 = Inr ''Li''"
  by (simp add: list_getitem_def chemical_symbols_def)

lemma symbol_O: "list_getitem chemical_symbols 8 = Inr ''O''"
  by (simp add: list_getitem_def chemical_symbols_def)

lemma symbols_sample:
  "get_chemical_symbols (sample_atoms zs) = symbols_of zs"
  by (simp add: get_chemical_symbols_def sample_atoms_def)

subsection \<open>The filter as a predicate\<close>

lemma filter_atoms_True_iff:
  "(filter_atoms cfg a = Inr True) =
     ((case min_num_atoms cfg of None \<Rightarrow> True | Some m \<Rightarrow> m \<le> len_atoms a) \<and>
      (case max_num_atoms cfg of None \<Rightarrow> True | Some M \<Rightarrow> len_atoms a \<le> M) \<and>
      (case elements cfg of None \<Rightarrow> True
       | Some E \<Rightarrow> (case get_chemical_symbols a of Inl e \<Rightarrow> False | Inr syms \<Rightarrow> set syms \<subseteq> set E)))"
  by (auto simp: filter_atoms_def split: option.splits sum.splits)

lemma filter_atoms_max_below_min:
  "min_num_atoms cfg = Some m \<Longrightarrow> max_num_atoms cfg = Some M \<Longrightarrow> M < m \<Longrightarrow>
   filter_atoms cfg a = Inr False"
  by (simp add: filter_atoms_def)

lemma filter_atoms_sample_no_elements:
  "elements cfg = None \<Longrightarrow>
   filter_atoms cfg (sample_atoms zs) =
     Inr ((case min_num_atoms cfg of None \<Rightarrow> True | Some m \<Rightarrow> m \<le> int (length zs)) \<and>
          (case max_num_atoms cfg of None \<Rightarrow> True | Some M \<Rightarrow> int (length zs) \<le> M))"
  by (auto simp: filter_atoms_def len_sample split: option.splits)

subsection \<open>The loop and the constructor\<close>

text \<open>
  A loop that returns has converted every record and has appended, in order, the
  structures the filter accepted; the progress bar has counted every record.
\<close>

lemma load_loop_Inr:
  "load_loop cfg es (al, pb) = Inr (al', pb') \<Longrightarrow>
     \<exists>as. map load_atoms_from_entry es = map Inr as
        \<and> list_all (\<lambda>a. \<exists>b. filter_atoms cfg a = Inr b) as
        \<and> al' = al @ filter (\<lambda>a. filter_atoms cfg a = Inr True) as
        \<and> pb' = pb\<lparr>tqdm_n := tqdm_n pb + length es\<rparr>"
proof (induction es arbitrary: al pb)
  case Nil
  then show ?case by simp
next
  case (Cons en rest)
  from Cons.prems obtain a b where a: "load_atoms_from_entry en = Inr a"
    and b: "filter_atoms cfg a = Inr b"
    and r: "load_loop cfg rest (if b then al @ [a] else al, tqdm_update 1 pb) = Inr (al', pb')"
    by (auto split: sum.splits)
  from Cons.IH[OF r] obtain as where as: "map load_atoms_from_entry rest = map Inr as"
     "list_all (\<lambda>a. \<exists>b. filter_atoms cfg a = Inr b) as"
     "al' = (if b then al @ [a] else al) @ filter (\<lambda>a. filter_atoms cfg a = Inr True) as"
     "pb' = (tqdm_update 1 pb)\<lparr>tqdm_n := tqdm_n (tqdm_update 1 pb) + length rest\<rparr>"
    by blast
  show ?case
    apply (rule exI[of _ "a # as"])
    using a b as by (auto simp: tqdm_update_def)
qed

lemma load_loop_ok:
  "map load_atoms_from_entry es = map Inr as \<Longrightarrow>
   list_all (\<lambda>a. \<exists>b. filter_atoms cfg a = Inr b) as \<Longrightarrow>
   load_loop cfg es (al, pb) =
     Inr (al @ filter (\<lambda>a. filter_atoms cfg a = Inr True) as,
          pb\<lparr>tqdm_n := tqdm_n pb + length es\<rparr>)"
proof (induction es arbitrary: al pb as)
  case Nil
  then show ?case by simp
next
  case (Cons en rest)
  then obtain a as' where as: "as = a # as'" "load_atoms_from_entry en = Inr a"
    "map load_atoms_from_entry rest = map Inr as'" by (cases as) auto
  with Cons.prems obtain b where b: "filter_atoms cfg a = Inr b"
    and r: "list_all (\<lambda>a. \<exists>b. filter_atoms cfg a = Inr b) as'" by auto
  show ?case using as b Cons.IH[OF as(3) r] by (simp add: tqdm_update_def)
qed

lemma load_loop_fail_conv:
  "map load_atoms_from_entry pre = map Inr as \<Longrightarrow>
   list_all (\<lambda>a. \<exists>b. filter_atoms cfg a = Inr b) as \<Longrightarrow>
   load_atoms_from_entry bad = Inl e \<Longrightarrow>
   load_loop cfg (pre @ bad # post) st = Inl e"
proof (induction pre arbitrary: st as)
  case Nil
  then show ?case by (cases st) simp
next
  case (Cons en rest)
  then obtain a as' where as: "as = a # as'" "load_atoms_from_entry en = Inr a"
    "map load_atoms_from_entry rest = map Inr as'" by (cases as) auto
  with Cons.prems obtain b where b: "filter_atoms cfg a = Inr b"
    and r: "list_all (\<lambda>a. \<exists>b. filter_atoms cfg a = Inr b) as'" by auto
  show ?case using as b Cons.IH[OF as(3) r Cons.prems(3)] by (cases st) simp
qed

lemma load_loop_pbar_indep:
  "map_sum id fst (load_loop cfg es (al, pb1)) = map_sum id fst (load_loop cfg es (al, pb2))"
  by (induction es arbitrary: al pb1 pb2) (auto split: sum.splits)

lemma init_Inr:
  assumes "MPTrajDataset_init source cfg = Inr (ds, pb)"
  obtains es as where "source (split cfg) = Inr es"
    "map load_atoms_from_entry es = map Inr as"
    "list_all (\<lambda>a. \<exists>b. filter_atoms cfg a = Inr b) as"
    "ds = \<lparr>config = cfg, atoms_list = filter (\<lambda>a. filter_atoms cfg a = Inr True) as\<rparr>"
    "pb = \<lparr>tqdm_n = length es, tqdm_total = length es, tqdm_closed = True\<rparr>"
proof -
  from assms obtain es al pb' where es: "source (split cfg) = Inr es"
    and l: "load_loop cfg es ([], tqdm_new es) = Inr (al, pb')"
    and d: "ds = \<lparr>config = cfg, atoms_list = al\<rparr>" "pb = tqdm_close pb'"
    by (auto simp: MPTrajDataset_init_def split: sum.splits prod.splits)
  from load_loop_Inr[OF l] obtain as where
    "map load_atoms_from_entry es = map Inr as"
    "list_all (\<lambda>a. \<exists>b. filter_atoms cfg a = Inr b) as"
    "al = filter (\<lambda>a. filter_atoms cfg a = Inr True) as"
    "pb' = (tqdm_new es)\<lparr>tqdm_n := tqdm_n (tqdm_new es) + length es\<rparr>"
    by auto
  with es d that show thesis by (simp add: tqdm_new_def tqdm_close_def)
qed

lemma init_ok:
  assumes "source (split cfg) = Inr es" "map load_atoms_from_entry es = map Inr as"
    "list_all (\<lambda>a. \<exists>b. filter_atoms cfg a = Inr b) as"
  shows "MPTrajDataset_init source cfg =
     Inr (\<lparr>config = cfg, atoms_list = filter (\<lambda>a. filter_atoms cfg a = Inr True) as\<rparr>,
          \<lparr>tqdm_n = length es, tqdm_total = length es, tqdm_closed = True\<rparr>)"
  using assms(1) load_loop_ok[OF assms(2,3), of "[]" "tqdm_new es"]
  by (simp add: MPTrajDataset_init_def tqdm_new_def tqdm_close_def)

lemma init_sample_5:
  "MPTrajDataset_init (sample_source [sample_entry [3, 3, 8, 8, 8]]) MPTrajDatasetConfig_default =
     Inr (\<lparr>config = MPTrajDatasetConfig_default, atoms_list = [sample_atoms [3, 3, 8, 8, 8]]\<rparr>,
          \<lparr>tqdm_n = 1, tqdm_total = 1, tqdm_closed = True\<rparr>)"
  by (simp add: MPTrajDataset_init_def sample_source_def load_sample
      filter_atoms_sample_no_elements MPTrajDatasetConfig_default_def tqdm_new_def
      tqdm_update_def tqdm_close_def)

lemma init_sample_bounded:
  "MPTrajDataset_init
     (sample_source [sample_entry [3, 8, 8], sample_entry [3, 3, 8, 8, 8],
                     sample_entry [3, 3, 3, 3, 8, 8, 8, 8, 8, 8]])
     \<lparr>split = Train, min_num_atoms = Some 5, max_num_atoms = Some 8, elements = None\<rparr> =
   Inr (\<lparr>config = \<lparr>split = Train, min_num_atoms = Some 5, max_num_atoms = Some 8,
                   elements = None\<rparr>,
         atoms_list = [sample_atoms [3, 3, 8, 8, 8]]\<rparr>,
        \<lparr>tqdm_n = 3, tqdm_total = 3, tqdm_closed = True\<rparr>)"
  by (simp add: MPTrajDataset_init_def sample_source_def load_sample
      filter_atoms_sample_no_elements tqdm_new_def tqdm_update_def tqdm_close_def)

subsection \<open>The size bounds\<close>

text \<open>
  Claim C1. Every structure in a built dataset has at least \<open>min_num_atoms\<close> atoms when
  that bound is set and at most \<open>max_num_atoms\<close> atoms when that one is set. A structure
  below the minimum or above the maximum is rejected by the filter. An unset bound
  restricts nothing: the filter answers as it does with a bound the structure meets.
\<close>

theorem retained_within_size_bounds:
  "(MPTrajDataset_init source cfg = Inr (ds, pb) \<longrightarrow> a \<in> set (atoms_list ds) \<longrightarrow>
      (\<forall>m. min_num_atoms cfg = Some m \<longrightarrow> m \<le> len_atoms a) \<and>
      (\<forall>M. max_num_atoms cfg = Some M \<longrightarrow> len_atoms a \<le> M))
   \<and> (min_num_atoms cfg = Some m \<longrightarrow> len_atoms b < m \<longrightarrow> filter_atoms cfg b = Inr False)
   \<and> (max_num_atoms cfg = Some M \<longrightarrow> M < len_atoms c \<longrightarrow> filter_atoms cfg c = Inr False)
   \<and> (m' \<le> len_atoms d \<longrightarrow>
         filter_atoms (cfg\<lparr>min_num_atoms := None\<rparr>) d = filter_atoms (cfg\<lparr>min_num_atoms := Some m'\<rparr>) d)
   \<and> (len_atoms d \<le> M' \<longrightarrow>
         filter_atoms (cfg\<lparr>max_num_atoms := None\<rparr>) d = filter_atoms (cfg\<lparr>max_num_atoms := Some M'\<rparr>) d)"
proof -
  have "(\<forall>m. min_num_atoms cfg = Some m \<longrightarrow> m \<le> len_atoms a) \<and>
      (\<forall>M. max_num_atoms cfg = Some M \<longrightarrow> len_atoms a \<le> M)"
    if "MPTrajDataset_init source cfg = Inr (ds, pb)" "a \<in> set (atoms_list ds)"
  proof -
    from that(1) obtain as where "atoms_list ds = filter (\<lambda>a. filter_atoms cfg a = Inr True) as"
      by (rule init_Inr) simp
    with that(2) have "filter_atoms cfg a = Inr True" by simp
    then show ?thesis by (simp add: filter_atoms_True_iff split: option.splits)
  qed
  moreover have "min_num_atoms cfg = Some m \<longrightarrow> len_atoms b < m \<longrightarrow> filter_atoms cfg b = Inr False"
    by (simp add: filter_atoms_def)
  moreover have "max_num_atoms cfg = Some M \<longrightarrow> M < len_atoms c \<longrightarrow> filter_atoms cfg c = Inr False"
    by (simp add: filter_atoms_def)
  moreover have "m' \<le> len_atoms d \<longrightarrow>
         filter_atoms (cfg\<lparr>min_num_atoms := None\<rparr>) d = filter_atoms (cfg\<lparr>min_num_atoms := Some m'\<rparr>) d"
    by (simp add: filter_atoms_def)
  moreover have "len_atoms d \<le> M' \<longrightarrow>
         filter_atoms (cfg\<lparr>max_num_atoms := None\<rparr>) d = filter_atoms (cfg\<lparr>max_num_atoms := Some M'\<rparr>) d"
    by (simp add: filter_atoms_def)
  ultimately show ?thesis by blast
qed

theorem retained_within_size_bounds_witness:
  "MPTrajDataset_init
     (sample_source [sample_entry [3, 8, 8], sample_entry [3, 3, 8, 8, 8],
                     sample_entry [3, 3, 3, 3, 8, 8, 8, 8, 8, 8]])
     \<lparr>split = Train, min_num_atoms = Some 5, max_num_atoms = Some 8, elements = None\<rparr> =
   Inr (\<lparr>config = \<lparr>split = Train, min_num_atoms = Some 5, max_num_atoms = Some 8,
                   elements = None\<rparr>,
         atoms_list = [sample_atoms [3, 3, 8, 8, 8]]\<rparr>,
        \<lparr>tqdm_n = 3, tqdm_total = 3, tqdm_closed = True\<rparr>)
   \<and> 5 \<le> len_atoms (sample_atoms [3, 3, 8, 8, 8])
   \<and> len_atoms (sample_atoms [3, 3, 8, 8, 8]) \<le> 8
   \<and> len_atoms (sample_atoms [3, 8, 8]) < 5
   \<and> filter_atoms \<lparr>split = Train, min_num_atoms = Some 5, max_num_atoms = Some 8,
                    elements = None\<rparr> (sample_atoms [3, 8, 8]) = Inr False
   \<and> 8 < len_atoms (sample_atoms [3, 3, 3, 3, 8, 8, 8, 8, 8, 8])
   \<and> filter_atoms \<lparr>split = Train, min_num_atoms = Some 5, max_num_atoms = Some 8,
                    elements = None\<rparr> (sample_atoms [3, 3, 3, 3, 8, 8, 8, 8, 8, 8]) = Inr False
   \<and> filter_atoms \<lparr>split = Train, min_num_atoms = None, max_num_atoms = Some 8,
                    elements = None\<rparr> (sample_atoms [3, 3, 8, 8, 8])
     = filter_atoms \<lparr>split = Train, min_num_atoms = Some 5, max_num_atoms = Some 8,
                    elements = None\<rparr> (sample_atoms [3, 3, 8, 8, 8])
   \<and> filter_atoms \<lparr>split = Train, min_num_atoms = Some 5, max_num_atoms = None,
                    elements = None\<rparr> (sample_atoms [3, 3, 8, 8, 8])
     = filter_atoms \<lparr>split = Train, min_num_atoms = Some 5, max_num_atoms = Some 8,
                    elements = None\<rparr> (sample_atoms [3, 3, 8, 8, 8])"
  using init_sample_bounded
    retained_within_size_bounds
      [of "sample_source [sample_entry [3, 8, 8], sample_entry [3, 3, 8, 8, 8],
                     sample_entry [3, 3, 3, 3, 8, 8, 8, 8, 8, 8]]"
          "\<lparr>split = Train, min_num_atoms = Some 5, max_num_atoms = Some 8, elements = None\<rparr>"
          "\<lparr>config = \<lparr>split = Train, min_num_atoms = Some 5, max_num_atoms = Some 8,
                   elements = None\<rparr>,
            atoms_list = [sample_atoms [3, 3, 8, 8, 8]]\<rparr>"
          "\<lparr>tqdm_n = 3, tqdm_total = 3, tqdm_closed = True\<rparr>"
          "sample_atoms [3, 3, 8, 8, 8]" 5 "sample_atoms [3, 8, 8]" 8
          "sample_atoms [3, 3, 3, 3, 8, 8, 8, 8, 8, 8]" 5 "sample_atoms [3, 3, 8, 8, 8]" 8]
  by (simp add: len_sample)

subsection \<open>The element test\<close>

text \<open>
  Claim C2. With \<open>elements\<close> set to \<open>E\<close>, a structure passes the filter exactly when it
  passes the size tests and the set of its chemical symbols is a subset of \<open>E\<close>; with no
  size bound set, exactly when the symbols are a subset of \<open>E\<close>. A structure with no
  symbols at all passes the element test.
\<close>

theorem elements_filter_is_subset_test:
  "elements cfg = Some E \<Longrightarrow>
   ((filter_atoms cfg a = Inr True) =
      (filter_atoms (cfg\<lparr>elements := None\<rparr>) a = Inr True \<and>
       (\<exists>syms. get_chemical_symbols a = Inr syms \<and> set syms \<subseteq> set E)))
   \<and> (min_num_atoms cfg = None \<longrightarrow> max_num_atoms cfg = None \<longrightarrow>
        (filter_atoms cfg a = Inr True) =
          (\<exists>syms. get_chemical_symbols a = Inr syms \<and> set syms \<subseteq> set E))
   \<and> (min_num_atoms cfg = None \<longrightarrow> max_num_atoms cfg = None \<longrightarrow>
        get_chemical_symbols a = Inr [] \<longrightarrow> filter_atoms cfg a = Inr True)"
  by (auto simp: filter_atoms_True_iff split: option.splits sum.splits)

theorem elements_filter_is_subset_test_witness:
  "elements \<lparr>split = Train, min_num_atoms = None, max_num_atoms = None,
             elements = Some [''Li'', ''Na'']\<rparr> = Some [''Li'', ''Na'']
   \<and> get_chemical_symbols (sample_atoms [3]) = Inr [''Li'']
   \<and> filter_atoms \<lparr>split = Train, min_num_atoms = None, max_num_atoms = None,
             elements = Some [''Li'', ''Na'']\<rparr> (sample_atoms [3]) = Inr True
   \<and> get_chemical_symbols (sample_atoms [3, 8]) = Inr [''Li'', ''O'']
   \<and> filter_atoms \<lparr>split = Train, min_num_atoms = None, max_num_atoms = None,
             elements = Some [''Li'', ''Na'']\<rparr> (sample_atoms [3, 8]) \<noteq> Inr True
   \<and> get_chemical_symbols (sample_atoms []) = Inr []
   \<and> filter_atoms \<lparr>split = Train, min_num_atoms = None, max_num_atoms = None,
             elements = Some [''Li'', ''Na'']\<rparr> (sample_atoms []) = Inr True"
  using elements_filter_is_subset_test
     [of "\<lparr>split = Train, min_num_atoms = None, max_num_atoms = None,
             elements = Some [''Li'', ''Na'']\<rparr>" "[''Li'', ''Na'']" "sample_atoms [3]"]
    elements_filter_is_subset_test
     [of "\<lparr>split = Train, min_num_atoms = None, max_num_atoms = None,
             elements = Some [''Li'', ''Na'']\<rparr>" "[''Li'', ''Na'']" "sample_atoms [3, 8]"]
    elements_filter_is_subset_test
     [of "\<lparr>split = Train, min_num_atoms = None, max_num_atoms = None,
             elements = Some [''Li'', ''Na'']\<rparr>" "[''Li'', ''Na'']" "sample_atoms []"]
  by (simp add: symbols_sample symbol_Li symbol_O)

text \<open>
  Claim C10. The element test is monotone in the configured list: a structure that
  passes with \<open>E\<close> passes with every list whose set of symbols contains that of \<open>E\<close>, the
  other fields being equal. Two lists with the same set of symbols, such as a list and
  the same list with repetitions, give the same answer.
\<close>

theorem elements_filter_monotone:
  "(set E \<subseteq> set E' \<longrightarrow> filter_atoms (cfg\<lparr>elements := Some E\<rparr>) a = Inr True \<longrightarrow>
      filter_atoms (cfg\<lparr>elements := Some E'\<rparr>) a = Inr True)
   \<and> (set D = set D' \<longrightarrow>
      filter_atoms (cfg\<lparr>elements := Some D\<rparr>) b = filter_atoms (cfg\<lparr>elements := Some D'\<rparr>) b)"
proof (intro conjI impI)
  assume "set E \<subseteq> set E'" "filter_atoms (cfg\<lparr>elements := Some E\<rparr>) a = Inr True"
  then show "filter_atoms (cfg\<lparr>elements := Some E'\<rparr>) a = Inr True"
    by (auto simp: filter_atoms_True_iff split: option.splits sum.splits)
next
  assume "set D = set D'"
  then show "filter_atoms (cfg\<lparr>elements := Some D\<rparr>) b = filter_atoms (cfg\<lparr>elements := Some D'\<rparr>) b"
    by (simp add: filter_atoms_def split: sum.splits)
qed

theorem elements_filter_monotone_witness:
  "set [''Li''] \<subseteq> set [''Li'', ''Na'']
   \<and> filter_atoms (MPTrajDatasetConfig_default\<lparr>elements := Some [''Li'']\<rparr>)
        (sample_atoms [3, 3, 3, 3, 3]) = Inr True
   \<and> filter_atoms (MPTrajDatasetConfig_default\<lparr>elements := Some [''Li'', ''Na'']\<rparr>)
        (sample_atoms [3, 3, 3, 3, 3]) = Inr True
   \<and> set [''Li'', ''O'', ''Li''] = set [''O'', ''Li'']
   \<and> filter_atoms (MPTrajDatasetConfig_default\<lparr>elements := Some [''Li'', ''O'', ''Li'']\<rparr>)
        (sample_atoms [3, 3, 8, 8, 8])
      = filter_atoms (MPTrajDatasetConfig_default\<lparr>elements := Some [''O'', ''Li'']\<rparr>)
        (sample_atoms [3, 3, 8, 8, 8])"
proof -
  have s: "set [''Li''] \<subseteq> set [''Li'', ''Na'']" by simp
  have p: "filter_atoms (MPTrajDatasetConfig_default\<lparr>elements := Some [''Li'']\<rparr>)
        (sample_atoms [3, 3, 3, 3, 3]) = Inr True"
    by (simp add: filter_atoms_def MPTrajDatasetConfig_default_def len_sample symbols_sample
        symbol_Li)
  have d: "set [''Li'', ''O'', ''Li''] = set [''O'', ''Li'']" by auto
  from s p d elements_filter_monotone
     [of "[''Li'']" "[''Li'', ''Na'']" MPTrajDatasetConfig_default "sample_atoms [3, 3, 3, 3, 3]"
         "[''Li'', ''O'', ''Li'']" "[''O'', ''Li'']" "sample_atoms [3, 3, 8, 8, 8]"]
  show ?thesis by blast
qed

subsection \<open>Indexing the dataset\<close>

text \<open>
  Claim C3, as the code has it. Reading at the length raises IndexError, as does every
  index at or above the length or below minus the length. An index from 0 up to the
  length reads that position. An index from minus the length up to \<open>-1\<close> is counted from
  the end, so \<open>-1\<close> reads the last structure of a dataset that is not empty. The dataset
  is the same after every access.
\<close>

theorem getitem_python_indexing:
  "fst (MPTrajDataset_getitem ds (MPTrajDataset_len ds)) = Inl IndexError
   \<and> (0 \<le> i \<and> i < MPTrajDataset_len ds \<longrightarrow>
        fst (MPTrajDataset_getitem ds i) = Inr (atoms_list ds ! nat i))
   \<and> (- MPTrajDataset_len ds \<le> j \<and> j < 0 \<longrightarrow>
        fst (MPTrajDataset_getitem ds j) = Inr (atoms_list ds ! nat (MPTrajDataset_len ds + j)))
   \<and> (k < - MPTrajDataset_len ds \<or> MPTrajDataset_len ds \<le> k \<longrightarrow>
        fst (MPTrajDataset_getitem ds k) = Inl IndexError)
   \<and> snd (MPTrajDataset_getitem ds l) = ds"
  by (auto simp: MPTrajDataset_getitem_def MPTrajDataset_len_def list_getitem_def add.commute)

theorem getitem_python_indexing_witness:
  "fst (MPTrajDataset_getitem
         \<lparr>config = MPTrajDatasetConfig_default,
          atoms_list = [sample_atoms [3, 3, 8, 8, 8], sample_atoms [3, 3, 3, 3, 3]]\<rparr> 2)
     = Inl IndexError
   \<and> fst (MPTrajDataset_getitem
         \<lparr>config = MPTrajDatasetConfig_default,
          atoms_list = [sample_atoms [3, 3, 8, 8, 8], sample_atoms [3, 3, 3, 3, 3]]\<rparr> 1)
     = Inr (sample_atoms [3, 3, 3, 3, 3])
   \<and> fst (MPTrajDataset_getitem
         \<lparr>config = MPTrajDatasetConfig_default,
          atoms_list = [sample_atoms [3, 3, 8, 8, 8], sample_atoms [3, 3, 3, 3, 3]]\<rparr> (- 1))
     = Inr (sample_atoms [3, 3, 3, 3, 3])
   \<and> fst (MPTrajDataset_getitem
         \<lparr>config = MPTrajDatasetConfig_default,
          atoms_list = [sample_atoms [3, 3, 8, 8, 8], sample_atoms [3, 3, 3, 3, 3]]\<rparr> (- 3))
     = Inl IndexError
   \<and> snd (MPTrajDataset_getitem
         \<lparr>config = MPTrajDatasetConfig_default,
          atoms_list = [sample_atoms [3, 3, 8, 8, 8], sample_atoms [3, 3, 3, 3, 3]]\<rparr> 1)
     = \<lparr>config = MPTrajDatasetConfig_default,
          atoms_list = [sample_atoms [3, 3, 8, 8, 8], sample_atoms [3, 3, 3, 3, 3]]\<rparr>"
  using getitem_python_indexing
    [of "\<lparr>config = MPTrajDatasetConfig_default,
          atoms_list = [sample_atoms [3, 3, 8, 8, 8], sample_atoms [3, 3, 3, 3, 3]]\<rparr>"
        1 "- 1" "- 3" 1]
  by (simp add: MPTrajDataset_len_def)

text \<open>
  Claim C3 as the spec words it has \<open>get(-1)\<close> raise on every dataset. On the dataset
  built from one five-atom record it returns that record's structure.
\<close>

theorem getitem_counterexample:
  "MPTrajDataset_init (sample_source [sample_entry [3, 3, 8, 8, 8]]) MPTrajDatasetConfig_default =
     Inr (\<lparr>config = MPTrajDatasetConfig_default, atoms_list = [sample_atoms [3, 3, 8, 8, 8]]\<rparr>,
          \<lparr>tqdm_n = 1, tqdm_total = 1, tqdm_closed = True\<rparr>)
   \<and> fst (MPTrajDataset_getitem
        \<lparr>config = MPTrajDatasetConfig_default, atoms_list = [sample_atoms [3, 3, 8, 8, 8]]\<rparr> (- 1))
     = Inr (sample_atoms [3, 3, 8, 8, 8])"
  by (simp add: MPTrajDataset_init_def sample_source_def load_sample
      filter_atoms_sample_no_elements MPTrajDatasetConfig_default_def tqdm_new_def
      tqdm_update_def tqdm_close_def MPTrajDataset_getitem_def list_getitem_def)

subsection \<open>Constructing a configuration\<close>

text \<open>
  Claim C4, as the code has it. Constructing a configuration checks no combination of
  fields: every choice of field values gives a configuration, also one whose
  \<open>max_num_atoms\<close> is below its \<open>min_num_atoms\<close>. With such a configuration the filter
  rejects every structure, and a build whose records all convert returns the empty
  dataset; it raises nothing.
\<close>

theorem config_construction_unvalidated:
  "MPTrajDatasetConfig_new s mn mx els =
     Inr \<lparr>split = s, min_num_atoms = mn, max_num_atoms = mx, elements = els\<rparr>
   \<and> (M < m \<longrightarrow>
        MPTrajDatasetConfig_new s (Some m) (Some M) els = Inr cfg \<longrightarrow>
          filter_atoms cfg a = Inr False
          \<and> (source (split cfg) = Inr es \<longrightarrow>
               map load_atoms_from_entry es = map Inr as \<longrightarrow>
               create_dataset source cfg =
                 Inr (\<lparr>config = cfg, atoms_list = []\<rparr>,
                      \<lparr>tqdm_n = length es, tqdm_total = length es, tqdm_closed = True\<rparr>)))"
proof -
  have "filter_atoms cfg a = Inr False \<and>
     (source (split cfg) = Inr es \<longrightarrow>
               map load_atoms_from_entry es = map Inr as \<longrightarrow>
               create_dataset source cfg =
                 Inr (\<lparr>config = cfg, atoms_list = []\<rparr>,
                      \<lparr>tqdm_n = length es, tqdm_total = length es, tqdm_closed = True\<rparr>))"
    if "M < m" and c: "MPTrajDatasetConfig_new s (Some m) (Some M) els = Inr cfg"
  proof -
    from c have mm: "min_num_atoms cfg = Some m" "max_num_atoms cfg = Some M"
      by (auto simp: MPTrajDatasetConfig_new_def)
    have f: "filter_atoms cfg x = Inr False" for x
      using mm \<open>M < m\<close> by (rule filter_atoms_max_below_min)
    have "create_dataset source cfg =
            Inr (\<lparr>config = cfg, atoms_list = []\<rparr>,
                 \<lparr>tqdm_n = length es, tqdm_total = length es, tqdm_closed = True\<rparr>)"
      if "source (split cfg) = Inr es" "map load_atoms_from_entry es = map Inr as"
    proof -
      have "list_all (\<lambda>a. \<exists>b. filter_atoms cfg a = Inr b) as"
        unfolding list_all_iff using f by blast
      from init_ok[of source cfg es as, OF that this] show ?thesis
        by (simp add: create_dataset_def f)
    qed
    with f show ?thesis by blast
  qed
  then show ?thesis by (simp add: MPTrajDatasetConfig_new_def)
qed

theorem config_construction_unvalidated_witness:
  "(3::int) < 5
   \<and> MPTrajDatasetConfig_new Val (Some 5) (Some 3) (Some [''Li'']) =
       Inr \<lparr>split = Val, min_num_atoms = Some 5, max_num_atoms = Some 3,
            elements = Some [''Li'']\<rparr>
   \<and> filter_atoms \<lparr>split = Val, min_num_atoms = Some 5, max_num_atoms = Some 3,
            elements = Some [''Li'']\<rparr> (sample_atoms [3, 3, 3, 3]) = Inr False
   \<and> map load_atoms_from_entry [sample_entry [3, 3, 3, 3], sample_entry [3, 3, 3, 3, 3]] =
       map Inr [sample_atoms [3, 3, 3, 3], sample_atoms [3, 3, 3, 3, 3]]
   \<and> create_dataset (sample_source [sample_entry [3, 3, 3, 3], sample_entry [3, 3, 3, 3, 3]])
        \<lparr>split = Val, min_num_atoms = Some 5, max_num_atoms = Some 3,
            elements = Some [''Li'']\<rparr> =
       Inr (\<lparr>config = \<lparr>split = Val, min_num_atoms = Some 5, max_num_atoms = Some 3,
                      elements = Some [''Li'']\<rparr>, atoms_list = []\<rparr>,
            \<lparr>tqdm_n = 2, tqdm_total = 2, tqdm_closed = True\<rparr>)"
  using config_construction_unvalidated
    [of Val "Some 5" "Some 3" "Some [''Li'']" 3 5
        "\<lparr>split = Val, min_num_atoms = Some 5, max_num_atoms = Some 3,
            elements = Some [''Li'']\<rparr>"
        "sample_atoms [3, 3, 3, 3]"
        "sample_source [sample_entry [3, 3, 3, 3], sample_entry [3, 3, 3, 3, 3]]"
        "[sample_entry [3, 3, 3, 3], sample_entry [3, 3, 3, 3, 3]]"
        "[sample_atoms [3, 3, 3, 3], sample_atoms [3, 3, 3, 3, 3]]"]
  by (simp add: load_sample sample_source_def)

text \<open>
  Claim C4 as the spec words it has the construction with \<open>max_num_atoms = 3\<close> below
  \<open>min_num_atoms = 5\<close> fail. It returns the configuration, and the build that follows
  reads both records and returns an empty dataset.
\<close>

theorem config_accepts_max_below_min_counterexample:
  "MPTrajDatasetConfig_new Train (Some 5) (Some 3) None =
     Inr \<lparr>split = Train, min_num_atoms = Some 5, max_num_atoms = Some 3, elements = None\<rparr>
   \<and> create_dataset
       (sample_source [sample_entry [3, 8, 8], sample_entry [3, 3, 8, 8, 8]])
       \<lparr>split = Train, min_num_atoms = Some 5, max_num_atoms = Some 3, elements = None\<rparr> =
     Inr (\<lparr>config = \<lparr>split = Train, min_num_atoms = Some 5, max_num_atoms = Some 3,
                     elements = None\<rparr>,
           atoms_list = []\<rparr>,
          \<lparr>tqdm_n = 2, tqdm_total = 2, tqdm_closed = True\<rparr>)"
  by (simp add: MPTrajDatasetConfig_new_def create_dataset_def MPTrajDataset_init_def
      sample_source_def load_sample filter_atoms_sample_no_elements tqdm_new_def
      tqdm_update_def tqdm_close_def)

subsection \<open>Conversion failures\<close>

lemma load_sample_short_positions:
  "load_atoms_from_entry ((sample_entry [3, 3, 8, 8, 8])\<lparr>positions := Some [[0, 0, 0], [0, 0, 0]]\<rparr>)
     = Inl ValueError"
  by (simp add: load_atoms_from_entry_def sample_entry_def and_then_def
      dict_getitem_def Atoms_new_def is_shape_def)

lemma symbol_119: "list_getitem chemical_symbols 119 = Inl IndexError"
  by (simp add: list_getitem_def chemical_symbols_def)

lemma filter_sample_119:
  "filter_atoms (MPTrajDatasetConfig_default\<lparr>elements := Some [''Li'']\<rparr>)
     (sample_atoms [119, 119, 119, 119, 119]) = Inl IndexError"
  by (simp add: filter_atoms_def MPTrajDatasetConfig_default_def len_sample symbols_sample
      symbol_119)

lemma filter_sample_Li5:
  "filter_atoms (MPTrajDatasetConfig_default\<lparr>elements := Some [''Li'']\<rparr>)
     (sample_atoms [3, 3, 3, 3, 3]) = Inr True"
  by (simp add: filter_atoms_def MPTrajDatasetConfig_default_def len_sample symbols_sample
      symbol_Li)

text \<open>
  The first exception of the loop, whether the conversion or the filter raises it, is the
  result of the loop; and a loop that raises has such a first record.
\<close>

lemma load_loop_fail_filter:
  "map load_atoms_from_entry pre = map Inr as \<Longrightarrow>
   list_all (\<lambda>a. \<exists>b. filter_atoms cfg a = Inr b) as \<Longrightarrow>
   load_atoms_from_entry bad = Inr b \<Longrightarrow> filter_atoms cfg b = Inl e \<Longrightarrow>
   load_loop cfg (pre @ bad # post) st = Inl e"
proof (induction pre arbitrary: st as)
  case Nil
  then show ?case by (cases st) simp
next
  case (Cons en rest)
  then obtain a as' where as: "as = a # as'" "load_atoms_from_entry en = Inr a"
    "map load_atoms_from_entry rest = map Inr as'" by (cases as) auto
  with Cons.prems obtain k where k: "filter_atoms cfg a = Inr k"
    and r: "list_all (\<lambda>a. \<exists>b. filter_atoms cfg a = Inr b) as'" by auto
  show ?case using as k Cons.IH[OF as(3) r Cons.prems(3,4)] by (cases st) simp
qed

lemma load_loop_Inl:
  "load_loop cfg es st = Inl e \<Longrightarrow>
   \<exists>pre bad post as. es = pre @ bad # post
      \<and> map load_atoms_from_entry pre = map Inr as
      \<and> list_all (\<lambda>a. \<exists>b. filter_atoms cfg a = Inr b) as
      \<and> (load_atoms_from_entry bad = Inl e
          \<or> (\<exists>b. load_atoms_from_entry bad = Inr b \<and> filter_atoms cfg b = Inl e))"
proof (induction es arbitrary: st)
  case Nil
  then show ?case by simp
next
  case (Cons en rest)
  obtain al pb where st: "st = (al, pb)" by (cases st)
  show ?case
  proof (cases "load_atoms_from_entry en")
    case (Inl x)
    with Cons.prems st have "x = e" by simp
    with Inl have "en # rest = [] @ en # rest \<and> map load_atoms_from_entry [] = map Inr []
      \<and> list_all (\<lambda>a. \<exists>b. filter_atoms cfg a = Inr b) []
      \<and> load_atoms_from_entry en = Inl e" by simp
    then show ?thesis by blast
  next
    case (Inr a)
    show ?thesis
    proof (cases "filter_atoms cfg a")
      case (Inl x)
      with Cons.prems st Inr have "x = e" by simp
      with Inl Inr have "en # rest = [] @ en # rest \<and> map load_atoms_from_entry [] = map Inr []
        \<and> list_all (\<lambda>a. \<exists>b. filter_atoms cfg a = Inr b) []
        \<and> (\<exists>b. load_atoms_from_entry en = Inr b \<and> filter_atoms cfg b = Inl e)" by simp
      then show ?thesis by blast
    next
      case (Inr k)
      with Cons.prems st \<open>load_atoms_from_entry en = Inr a\<close>
      have "load_loop cfg rest (if k then al @ [a] else al, tqdm_update 1 pb) = Inl e" by simp
      from Cons.IH[OF this] obtain pre bad post as where r: "rest = pre @ bad # post"
        "map load_atoms_from_entry pre = map Inr as"
        "list_all (\<lambda>a. \<exists>b. filter_atoms cfg a = Inr b) as"
        "load_atoms_from_entry bad = Inl e
          \<or> (\<exists>b. load_atoms_from_entry bad = Inr b \<and> filter_atoms cfg b = Inl e)"
        by blast
      with Inr \<open>load_atoms_from_entry en = Inr a\<close>
      have "en # rest = (en # pre) @ bad # post
        \<and> map load_atoms_from_entry (en # pre) = map Inr (a # as)
        \<and> list_all (\<lambda>a. \<exists>b. filter_atoms cfg a = Inr b) (a # as)
        \<and> (load_atoms_from_entry bad = Inl e
          \<or> (\<exists>b. load_atoms_from_entry bad = Inr b \<and> filter_atoms cfg b = Inl e))"
        by simp
      then show ?thesis by blast
    qed
  qed
qed

text \<open>The filter reads the positions and the numbers of a structure, not its calculator.\<close>

lemma filter_atoms_ignores_calc:
  "filter_atoms cfg (a\<lparr>calc := c\<rparr>) = filter_atoms cfg a"
proof -
  have l: "len_atoms (a\<lparr>calc := c\<rparr>) = len_atoms a"
    by (simp add: len_atoms_def)
  have g: "get_chemical_symbols (a\<lparr>calc := c\<rparr>) = get_chemical_symbols a"
    by (simp add: get_chemical_symbols_def)
  show ?thesis unfolding filter_atoms_def l g ..
qed

lemma load_forces_unchecked:
  assumes "load_atoms_from_entry en = Inr a" "is_rectangular f"
  shows "load_atoms_from_entry (en\<lparr>forces := Some f\<rparr>) =
     Inr (a\<lparr>calc := map_option (\<lambda>cl. cl\<lparr>results_forces := f\<rparr>) (calc a)\<rparr>)"
  using assms
  by (auto simp: load_atoms_from_entry_def and_then_def dict_getitem_def
      SinglePointCalculator_new_def split: sum.splits option.splits if_splits)

text \<open>
  Claim C5, as the code has it. The records are processed in order, and the first
  exception raised, by the conversion of a record or by the filter on a converted
  structure, ends the build: the build raises that same exception and returns no
  dataset. So when the conversion of a record raises and neither the conversion nor the
  filter raised on an earlier record, the build raises that record's exception. Every
  exception of a build is the upstream loader's or such a first exception, unchanged,
  with no position in the stream. A build that returns has converted every record of the
  split, and its dataset is made of exactly the converted structures the filter
  accepted. The rows of \<open>forces\<close> are not counted against the atoms: a record that
  converts still converts with any other rectangular \<open>forces\<close> array, and the filter
  answers as before. When the filter accepts it, the build of a split holding that one
  record returns a dataset that holds it, and every build that returns holds the
  structure of such a record of its split.
\<close>

theorem conversion_error_aborts_build:
  "(source (split cfg) = Inr (pre @ bad # post) \<longrightarrow>
      map load_atoms_from_entry pre = map Inr as \<longrightarrow>
      list_all (\<lambda>a. \<exists>k. filter_atoms cfg a = Inr k) as \<longrightarrow>
        (load_atoms_from_entry bad = Inl e \<longrightarrow> MPTrajDataset_init source cfg = Inl e)
        \<and> (load_atoms_from_entry bad = Inr b \<longrightarrow> filter_atoms cfg b = Inl e' \<longrightarrow>
             MPTrajDataset_init source cfg = Inl e'))
   \<and> (MPTrajDataset_init source cfg = Inl x \<longrightarrow>
        source (split cfg) = Inl x
        \<or> (\<exists>pre' bad' post' as'. source (split cfg) = Inr (pre' @ bad' # post')
              \<and> map load_atoms_from_entry pre' = map Inr as'
              \<and> list_all (\<lambda>a. \<exists>k. filter_atoms cfg a = Inr k) as'
              \<and> (load_atoms_from_entry bad' = Inl x
                  \<or> (\<exists>b'. load_atoms_from_entry bad' = Inr b' \<and> filter_atoms cfg b' = Inl x))))
   \<and> (MPTrajDataset_init source cfg = Inr (ds, pb) \<longrightarrow>
        (\<exists>es as'. source (split cfg) = Inr es
            \<and> map load_atoms_from_entry es = map Inr as'
            \<and> atoms_list ds = filter (\<lambda>a. filter_atoms cfg a = Inr True) as'
            \<and> tqdm_n pb = length es))
   \<and> (load_atoms_from_entry en = Inr a \<longrightarrow> is_rectangular f \<longrightarrow>
        load_atoms_from_entry (en\<lparr>forces := Some f\<rparr>) =
          Inr (a\<lparr>calc := map_option (\<lambda>cl. cl\<lparr>results_forces := f\<rparr>) (calc a)\<rparr>)
        \<and> filter_atoms cfg (a\<lparr>calc := map_option (\<lambda>cl. cl\<lparr>results_forces := f\<rparr>) (calc a)\<rparr>)
            = filter_atoms cfg a
        \<and> (source (split cfg) = Inr [en\<lparr>forces := Some f\<rparr>] \<longrightarrow>
             filter_atoms cfg a = Inr True \<longrightarrow>
             MPTrajDataset_init source cfg =
               Inr (\<lparr>config = cfg,
                     atoms_list =
                       [a\<lparr>calc := map_option (\<lambda>cl. cl\<lparr>results_forces := f\<rparr>) (calc a)\<rparr>]\<rparr>,
                    \<lparr>tqdm_n = 1, tqdm_total = 1, tqdm_closed = True\<rparr>))
        \<and> (MPTrajDataset_init source cfg = Inr (ds, pb) \<longrightarrow>
             source (split cfg) = Inr rs \<longrightarrow> en\<lparr>forces := Some f\<rparr> \<in> set rs \<longrightarrow>
             filter_atoms cfg a = Inr True \<longrightarrow>
             a\<lparr>calc := map_option (\<lambda>cl. cl\<lparr>results_forces := f\<rparr>) (calc a)\<rparr>
               \<in> set (atoms_list ds)))"
proof -
  have 1: "(load_atoms_from_entry bad = Inl e \<longrightarrow> MPTrajDataset_init source cfg = Inl e)
        \<and> (load_atoms_from_entry bad = Inr b \<longrightarrow> filter_atoms cfg b = Inl e' \<longrightarrow>
             MPTrajDataset_init source cfg = Inl e')"
    if "source (split cfg) = Inr (pre @ bad # post)"
      "map load_atoms_from_entry pre = map Inr as"
      "list_all (\<lambda>a. \<exists>k. filter_atoms cfg a = Inr k) as"
    using that by (simp add: MPTrajDataset_init_def load_loop_fail_conv load_loop_fail_filter)
  have 2: "source (split cfg) = Inl x
        \<or> (\<exists>pre' bad' post' as'. source (split cfg) = Inr (pre' @ bad' # post')
              \<and> map load_atoms_from_entry pre' = map Inr as'
              \<and> list_all (\<lambda>a. \<exists>k. filter_atoms cfg a = Inr k) as'
              \<and> (load_atoms_from_entry bad' = Inl x
                  \<or> (\<exists>b'. load_atoms_from_entry bad' = Inr b' \<and> filter_atoms cfg b' = Inl x)))"
    if i: "MPTrajDataset_init source cfg = Inl x"
  proof (cases "source (split cfg)")
    case (Inl y)
    with i show ?thesis by (simp add: MPTrajDataset_init_def)
  next
    case (Inr es)
    with i have "load_loop cfg es ([], tqdm_new es) = Inl x"
      by (simp add: MPTrajDataset_init_def split: sum.splits prod.splits)
    from load_loop_Inl[OF this] Inr show ?thesis by blast
  qed
  have 3: "\<exists>es as'. source (split cfg) = Inr es
            \<and> map load_atoms_from_entry es = map Inr as'
            \<and> atoms_list ds = filter (\<lambda>a. filter_atoms cfg a = Inr True) as'
            \<and> tqdm_n pb = length es"
    if "MPTrajDataset_init source cfg = Inr (ds, pb)"
    using that by (rule init_Inr) auto
  have 4: "load_atoms_from_entry (en\<lparr>forces := Some f\<rparr>) =
          Inr (a\<lparr>calc := map_option (\<lambda>cl. cl\<lparr>results_forces := f\<rparr>) (calc a)\<rparr>)
        \<and> filter_atoms cfg (a\<lparr>calc := map_option (\<lambda>cl. cl\<lparr>results_forces := f\<rparr>) (calc a)\<rparr>)
            = filter_atoms cfg a
        \<and> (source (split cfg) = Inr [en\<lparr>forces := Some f\<rparr>] \<longrightarrow>
             filter_atoms cfg a = Inr True \<longrightarrow>
             MPTrajDataset_init source cfg =
               Inr (\<lparr>config = cfg,
                     atoms_list =
                       [a\<lparr>calc := map_option (\<lambda>cl. cl\<lparr>results_forces := f\<rparr>) (calc a)\<rparr>]\<rparr>,
                    \<lparr>tqdm_n = 1, tqdm_total = 1, tqdm_closed = True\<rparr>))
        \<and> (MPTrajDataset_init source cfg = Inr (ds, pb) \<longrightarrow>
             source (split cfg) = Inr rs \<longrightarrow> en\<lparr>forces := Some f\<rparr> \<in> set rs \<longrightarrow>
             filter_atoms cfg a = Inr True \<longrightarrow>
             a\<lparr>calc := map_option (\<lambda>cl. cl\<lparr>results_forces := f\<rparr>) (calc a)\<rparr>
               \<in> set (atoms_list ds))"
    if l: "load_atoms_from_entry en = Inr a" and r: "is_rectangular f"
  proof -
    note c = load_forces_unchecked[OF l r]
    note k = filter_atoms_ignores_calc
      [where cfg = cfg and a = a
         and c = "map_option (\<lambda>cl. cl\<lparr>results_forces := f\<rparr>) (calc a)"]
    have "MPTrajDataset_init source cfg =
               Inr (\<lparr>config = cfg,
                     atoms_list =
                       [a\<lparr>calc := map_option (\<lambda>cl. cl\<lparr>results_forces := f\<rparr>) (calc a)\<rparr>]\<rparr>,
                    \<lparr>tqdm_n = 1, tqdm_total = 1, tqdm_closed = True\<rparr>)"
      if "source (split cfg) = Inr [en\<lparr>forces := Some f\<rparr>]" "filter_atoms cfg a = Inr True"
      using that c k
      by (simp add: MPTrajDataset_init_def tqdm_new_def tqdm_update_def tqdm_close_def)
    moreover have "a\<lparr>calc := map_option (\<lambda>cl. cl\<lparr>results_forces := f\<rparr>) (calc a)\<rparr>
               \<in> set (atoms_list ds)"
      if i: "MPTrajDataset_init source cfg = Inr (ds, pb)"
        and s: "source (split cfg) = Inr rs" and m: "en\<lparr>forces := Some f\<rparr> \<in> set rs"
        and t: "filter_atoms cfg a = Inr True"
    proof -
      from i obtain es cs where es: "source (split cfg) = Inr es"
        and cs: "map load_atoms_from_entry es = map Inr cs"
        and ds: "ds = \<lparr>config = cfg, atoms_list = filter (\<lambda>a. filter_atoms cfg a = Inr True) cs\<rparr>"
        by (rule init_Inr)
      from s es have "es = rs" by simp
      with m have "load_atoms_from_entry (en\<lparr>forces := Some f\<rparr>) \<in> set (map load_atoms_from_entry es)"
        by simp
      with cs c
      have "a\<lparr>calc := map_option (\<lambda>cl. cl\<lparr>results_forces := f\<rparr>) (calc a)\<rparr> \<in> set cs"
        by auto
      with k t ds show ?thesis by simp
    qed
    ultimately show ?thesis using c k by blast
  qed
  from 1 2 3 4 show ?thesis by blast
qed

theorem conversion_error_aborts_build_witness:
  "MPTrajDataset_init
     (sample_source ([sample_entry [3, 3, 8, 8, 8]] @
        (sample_entry [3, 3, 8, 8, 8])\<lparr>positions := Some [[0, 0, 0], [0, 0, 0]]\<rparr> #
        [sample_entry [3, 3, 3, 3, 3]]))
     MPTrajDatasetConfig_default = Inl ValueError
   \<and> load_atoms_from_entry
        ((sample_entry [3, 3, 8, 8, 8])\<lparr>positions := Some [[0, 0, 0], [0, 0, 0]]\<rparr>)
       = Inl ValueError
   \<and> MPTrajDataset_init
       (sample_source ([sample_entry [3, 3, 3, 3, 3]] @
          sample_entry [119, 119, 119, 119, 119] # []))
       (MPTrajDatasetConfig_default\<lparr>elements := Some [''Li'']\<rparr>) = Inl IndexError
   \<and> filter_atoms (MPTrajDatasetConfig_default\<lparr>elements := Some [''Li'']\<rparr>)
        (sample_atoms [119, 119, 119, 119, 119]) = Inl IndexError
   \<and> MPTrajDataset_init (sample_source [sample_entry [3, 3, 8, 8, 8]]) MPTrajDatasetConfig_default =
       Inr (\<lparr>config = MPTrajDatasetConfig_default, atoms_list = [sample_atoms [3, 3, 8, 8, 8]]\<rparr>,
            \<lparr>tqdm_n = 1, tqdm_total = 1, tqdm_closed = True\<rparr>)
   \<and> (\<exists>es as'. sample_source [sample_entry [3, 3, 8, 8, 8]] (split MPTrajDatasetConfig_default)
           = Inr es
         \<and> map load_atoms_from_entry es = map Inr as'
         \<and> [sample_atoms [3, 3, 8, 8, 8]] =
             filter (\<lambda>a. filter_atoms MPTrajDatasetConfig_default a = Inr True) as'
         \<and> 1 = length es)
   \<and> is_rectangular [[0, 0, 0 :: real]]
   \<and> length [[0, 0, 0 :: real]] \<noteq> nat (len_atoms (sample_atoms [3, 3, 8, 8, 8]))
   \<and> load_atoms_from_entry ((sample_entry [3, 3, 8, 8, 8])\<lparr>forces := Some [[0, 0, 0]]\<rparr>) =
       Inr ((sample_atoms [3, 3, 8, 8, 8])
             \<lparr>calc := Some \<lparr>results_energy = 0, results_forces = [[0, 0, 0]],
                            results_stress = [1, 2, 3, 4, 5, 6]\<rparr>\<rparr>)
   \<and> MPTrajDataset_init
       (sample_source [(sample_entry [3, 3, 8, 8, 8])\<lparr>forces := Some [[0, 0, 0]]\<rparr>])
       MPTrajDatasetConfig_default =
       Inr (\<lparr>config = MPTrajDatasetConfig_default,
             atoms_list =
               [(sample_atoms [3, 3, 8, 8, 8])
                  \<lparr>calc := Some \<lparr>results_energy = 0, results_forces = [[0, 0, 0]],
                                 results_stress = [1, 2, 3, 4, 5, 6]\<rparr>\<rparr>]\<rparr>,
            \<lparr>tqdm_n = 1, tqdm_total = 1, tqdm_closed = True\<rparr>)
   \<and> MPTrajDataset_init
       (sample_source [sample_entry [3, 3, 8, 8, 8],
                       (sample_entry [3, 3, 8, 8, 8])\<lparr>forces := Some [[0, 0, 0]]\<rparr>])
       MPTrajDatasetConfig_default =
       Inr (\<lparr>config = MPTrajDatasetConfig_default,
             atoms_list =
               [sample_atoms [3, 3, 8, 8, 8],
                (sample_atoms [3, 3, 8, 8, 8])
                  \<lparr>calc := Some \<lparr>results_energy = 0, results_forces = [[0, 0, 0]],
                                 results_stress = [1, 2, 3, 4, 5, 6]\<rparr>\<rparr>]\<rparr>,
            \<lparr>tqdm_n = 2, tqdm_total = 2, tqdm_closed = True\<rparr>)
   \<and> (sample_atoms [3, 3, 8, 8, 8])
         \<lparr>calc := Some \<lparr>results_energy = 0, results_forces = [[0, 0, 0]],
                        results_stress = [1, 2, 3, 4, 5, 6]\<rparr>\<rparr>
       \<in> set (atoms_list
            \<lparr>config = MPTrajDatasetConfig_default,
             atoms_list =
               [sample_atoms [3, 3, 8, 8, 8],
                (sample_atoms [3, 3, 8, 8, 8])
                  \<lparr>calc := Some \<lparr>results_energy = 0, results_forces = [[0, 0, 0]],
                                 results_stress = [1, 2, 3, 4, 5, 6]\<rparr>\<rparr>]\<rparr>)"
proof -
  let ?good = "sample_entry [3, 3, 8, 8, 8]"
  let ?short = "(sample_entry [3, 3, 8, 8, 8])\<lparr>positions := Some [[0, 0, 0], [0, 0, 0]]\<rparr>"
  let ?cfgLi = "MPTrajDatasetConfig_default\<lparr>elements := Some [''Li'']\<rparr>"
  have m: "map load_atoms_from_entry [?good] = map Inr [sample_atoms [3, 3, 8, 8, 8]]"
    by (simp add: load_sample)
  have l: "list_all (\<lambda>a. \<exists>k. filter_atoms MPTrajDatasetConfig_default a = Inr k)
        [sample_atoms [3, 3, 8, 8, 8]]"
    by (auto simp: filter_atoms_sample_no_elements MPTrajDatasetConfig_default_def)
  have b: "load_atoms_from_entry ?short = Inl ValueError"
    by (rule load_sample_short_positions)
  have s1: "sample_source ([?good] @ ?short # [sample_entry [3, 3, 3, 3, 3]])
      (split MPTrajDatasetConfig_default) = Inr ([?good] @ ?short # [sample_entry [3, 3, 3, 3, 3]])"
    by (simp add: sample_source_def)
  from conversion_error_aborts_build
    [where source = "sample_source ([?good] @ ?short # [sample_entry [3, 3, 3, 3, 3]])"
       and cfg = MPTrajDatasetConfig_default and pre = "[?good]" and bad = ?short
       and post = "[sample_entry [3, 3, 3, 3, 3]]" and as = "[sample_atoms [3, 3, 8, 8, 8]]"
       and e = ValueError]
    s1 m l b
  have 1: "MPTrajDataset_init
     (sample_source ([?good] @ ?short # [sample_entry [3, 3, 3, 3, 3]]))
     MPTrajDatasetConfig_default = Inl ValueError"
    by blast
  have m2: "map load_atoms_from_entry [sample_entry [3, 3, 3, 3, 3]] =
      map Inr [sample_atoms [3, 3, 3, 3, 3]]"
    by (simp add: load_sample)
  have l2: "list_all (\<lambda>a. \<exists>k. filter_atoms ?cfgLi a = Inr k) [sample_atoms [3, 3, 3, 3, 3]]"
    by (auto simp: filter_sample_Li5)
  have s2: "sample_source ([sample_entry [3, 3, 3, 3, 3]] @
          sample_entry [119, 119, 119, 119, 119] # []) (split ?cfgLi)
      = Inr ([sample_entry [3, 3, 3, 3, 3]] @ sample_entry [119, 119, 119, 119, 119] # [])"
    by (simp add: sample_source_def)
  have c2: "load_atoms_from_entry (sample_entry [119, 119, 119, 119, 119]) =
      Inr (sample_atoms [119, 119, 119, 119, 119])"
    by (rule load_sample)
  from conversion_error_aborts_build
    [where source = "sample_source ([sample_entry [3, 3, 3, 3, 3]] @
          sample_entry [119, 119, 119, 119, 119] # [])"
       and cfg = ?cfgLi and pre = "[sample_entry [3, 3, 3, 3, 3]]"
       and bad = "sample_entry [119, 119, 119, 119, 119]" and post = "[]"
       and as = "[sample_atoms [3, 3, 3, 3, 3]]"
       and b = "sample_atoms [119, 119, 119, 119, 119]" and e' = IndexError]
    s2 m2 l2 c2 filter_sample_119
  have 2: "MPTrajDataset_init
       (sample_source ([sample_entry [3, 3, 3, 3, 3]] @
          sample_entry [119, 119, 119, 119, 119] # []))
       ?cfgLi = Inl IndexError"
    by blast
  from conversion_error_aborts_build
    [where source = "sample_source [?good]" and cfg = MPTrajDatasetConfig_default
       and ds = "\<lparr>config = MPTrajDatasetConfig_default,
                   atoms_list = [sample_atoms [3, 3, 8, 8, 8]]\<rparr>"
       and pb = "\<lparr>tqdm_n = 1, tqdm_total = 1, tqdm_closed = True\<rparr>"]
    init_sample_5
  have 3: "\<exists>es as'. sample_source [?good] (split MPTrajDatasetConfig_default) = Inr es
         \<and> map load_atoms_from_entry es = map Inr as'
         \<and> [sample_atoms [3, 3, 8, 8, 8]] =
             filter (\<lambda>a. filter_atoms MPTrajDatasetConfig_default a = Inr True) as'
         \<and> 1 = length es"
    by simp
  have r: "is_rectangular [[0, 0, 0 :: real]]" by (simp add: is_rectangular_def)
  have n: "length [[0, 0, 0 :: real]] \<noteq> nat (len_atoms (sample_atoms [3, 3, 8, 8, 8]))"
    by (simp add: len_sample)
  have c: "load_atoms_from_entry ?good = Inr (sample_atoms [3, 3, 8, 8, 8])"
    by (rule load_sample)
  have k: "filter_atoms MPTrajDatasetConfig_default (sample_atoms [3, 3, 8, 8, 8]) = Inr True"
    by (simp add: filter_atoms_sample_no_elements MPTrajDatasetConfig_default_def)
  have s4: "sample_source [?good\<lparr>forces := Some [[0, 0, 0]]\<rparr>]
      (split MPTrajDatasetConfig_default) = Inr [?good\<lparr>forces := Some [[0, 0, 0]]\<rparr>]"
    by (simp add: sample_source_def)
  have u: "(sample_atoms [3, 3, 8, 8, 8])
      \<lparr>calc := map_option (\<lambda>cl. cl\<lparr>results_forces := [[0, 0, 0]]\<rparr>)
                 (calc (sample_atoms [3, 3, 8, 8, 8]))\<rparr>
    = (sample_atoms [3, 3, 8, 8, 8])
             \<lparr>calc := Some \<lparr>results_energy = 0, results_forces = [[0, 0, 0]],
                            results_stress = [1, 2, 3, 4, 5, 6]\<rparr>\<rparr>"
    by (simp add: sample_atoms_def)
  from conversion_error_aborts_build
    [where source = "sample_source [?good\<lparr>forces := Some [[0, 0, 0]]\<rparr>]"
       and cfg = MPTrajDatasetConfig_default and en = ?good
       and a = "sample_atoms [3, 3, 8, 8, 8]" and f = "[[0, 0, 0]]"]
    c r k s4
  have 4: "load_atoms_from_entry (?good\<lparr>forces := Some [[0, 0, 0]]\<rparr>) =
       Inr ((sample_atoms [3, 3, 8, 8, 8])
             \<lparr>calc := Some \<lparr>results_energy = 0, results_forces = [[0, 0, 0]],
                            results_stress = [1, 2, 3, 4, 5, 6]\<rparr>\<rparr>)"
    and 5: "MPTrajDataset_init (sample_source [?good\<lparr>forces := Some [[0, 0, 0]]\<rparr>])
       MPTrajDatasetConfig_default =
       Inr (\<lparr>config = MPTrajDatasetConfig_default,
             atoms_list =
               [(sample_atoms [3, 3, 8, 8, 8])
                  \<lparr>calc := Some \<lparr>results_energy = 0, results_forces = [[0, 0, 0]],
                                 results_stress = [1, 2, 3, 4, 5, 6]\<rparr>\<rparr>]\<rparr>,
            \<lparr>tqdm_n = 1, tqdm_total = 1, tqdm_closed = True\<rparr>)"
    unfolding u by blast+
  let ?kept = "(sample_atoms [3, 3, 8, 8, 8])
      \<lparr>calc := Some \<lparr>results_energy = 0, results_forces = [[0, 0, 0]],
                     results_stress = [1, 2, 3, 4, 5, 6]\<rparr>\<rparr>"
  have k': "filter_atoms MPTrajDatasetConfig_default ?kept = Inr True"
    by (simp add: filter_atoms_ignores_calc k)
  have s6: "sample_source [?good, ?good\<lparr>forces := Some [[0, 0, 0]]\<rparr>]
      (split MPTrajDatasetConfig_default) = Inr [?good, ?good\<lparr>forces := Some [[0, 0, 0]]\<rparr>]"
    by (simp add: sample_source_def)
  have 6: "MPTrajDataset_init (sample_source [?good, ?good\<lparr>forces := Some [[0, 0, 0]]\<rparr>])
       MPTrajDatasetConfig_default =
       Inr (\<lparr>config = MPTrajDatasetConfig_default,
             atoms_list = [sample_atoms [3, 3, 8, 8, 8], ?kept]\<rparr>,
            \<lparr>tqdm_n = 2, tqdm_total = 2, tqdm_closed = True\<rparr>)"
    using c 4 k k'
    by (simp add: MPTrajDataset_init_def sample_source_def tqdm_new_def tqdm_update_def
        tqdm_close_def)
  have mem: "?good\<lparr>forces := Some [[0, 0, 0]]\<rparr>
      \<in> set [?good, ?good\<lparr>forces := Some [[0, 0, 0]]\<rparr>]"
    by simp
  from conversion_error_aborts_build
    [where source = "sample_source [?good, ?good\<lparr>forces := Some [[0, 0, 0]]\<rparr>]"
       and cfg = MPTrajDatasetConfig_default and en = ?good
       and a = "sample_atoms [3, 3, 8, 8, 8]" and f = "[[0, 0, 0]]"
       and ds = "\<lparr>config = MPTrajDatasetConfig_default,
                   atoms_list = [sample_atoms [3, 3, 8, 8, 8], ?kept]\<rparr>"
       and pb = "\<lparr>tqdm_n = 2, tqdm_total = 2, tqdm_closed = True\<rparr>"
       and rs = "[?good, ?good\<lparr>forces := Some [[0, 0, 0]]\<rparr>]"]
    c r k 6 s6 mem
  have 7: "?kept \<in> set (atoms_list
            \<lparr>config = MPTrajDatasetConfig_default,
             atoms_list = [sample_atoms [3, 3, 8, 8, 8], ?kept]\<rparr>)"
    unfolding u by blast
  from 1 b 2 filter_sample_119 init_sample_5 3 r n 4 5 6 7 show ?thesis by blast
qed

text \<open>
  Claim C5 as the spec words it has the exception be a conversion error that names the
  position of the offending record. A split whose one record has no \<open>forces\<close> ends in
  \<open>KeyError\<close>. A record with two rows of positions for five atomic numbers gives the same
  \<open>ValueError\<close> whether it is the first record of the split or the second.
\<close>

theorem conversion_error_counterexample:
  "MPTrajDataset_init (sample_source [(sample_entry [3, 3, 8, 8, 8])\<lparr>forces := None\<rparr>])
     MPTrajDatasetConfig_default = Inl (KeyError ''forces'')
   \<and> MPTrajDataset_init
       (sample_source
          [(sample_entry [3, 3, 8, 8, 8])\<lparr>positions := Some [[0, 0, 0], [0, 0, 0]]\<rparr>])
       MPTrajDatasetConfig_default = Inl ValueError
   \<and> MPTrajDataset_init
       (sample_source
          [sample_entry [3, 3, 8, 8, 8],
           (sample_entry [3, 3, 8, 8, 8])\<lparr>positions := Some [[0, 0, 0], [0, 0, 0]]\<rparr>])
       MPTrajDatasetConfig_default = Inl ValueError"
  by (simp add: MPTrajDataset_init_def sample_source_def load_sample load_sample_no_forces
      load_sample_short_positions filter_atoms_sample_no_elements
      MPTrajDatasetConfig_default_def)

subsection \<open>The stress label\<close>

lemma length_3_cases: "length r = 3 \<Longrightarrow> \<exists>x y z. r = [x, y, z]"
  by (cases r; cases "tl r"; cases "tl (tl r)") auto

lemma nth_of_shape_3_3:
  assumes "is_shape 3 3 S"
  shows "\<exists>a b c d e f g h i. S = [[a, b, c], [d, e, f], [g, h, i]]"
proof -
  from assms have "length S = 3" and rows: "\<forall>r\<in>set S. length r = 3"
    by (simp_all add: is_shape_def list_all_iff)
  from length_3_cases[OF this(1)] obtain r0 r1 r2 where S: "S = [r0, r1, r2]" by blast
  with rows have "length r0 = 3" "length r1 = 3" "length r2 = 3" by simp_all
  with S length_3_cases[of r0] length_3_cases[of r1] length_3_cases[of r2]
  show ?thesis by blast
qed

text \<open>
  Claim C6. On a symmetric \<open>3 \<times> 3\<close> tensor the stress conversion returns the six
  components in the order xx, yy, zz, yz, xz, xy; on the tensor with diagonal
  \<open>(1, 2, 3)\<close>, \<open>S[1][2] = 4\<close>, \<open>S[0][2] = 5\<close> and \<open>S[0][1] = 6\<close> it returns
  \<open>[1, 2, 3, 4, 5, 6]\<close>. The stress label of a converted record is the conversion of
  the record's \<open>stress\<close> field.
\<close>

theorem voigt_order_of_symmetric_tensor:
  "(is_shape 3 3 S \<longrightarrow> S ! 1 ! 2 = S ! 2 ! 1 \<longrightarrow> S ! 0 ! 2 = S ! 2 ! 0 \<longrightarrow>
      S ! 0 ! 1 = S ! 1 ! 0 \<longrightarrow>
      full_3x3_to_voigt_6_stress S =
        Inr [S ! 0 ! 0, S ! 1 ! 1, S ! 2 ! 2, S ! 1 ! 2, S ! 0 ! 2, S ! 0 ! 1])
   \<and> full_3x3_to_voigt_6_stress [[1, 6, 5], [6, 2, 4], [5, 4, 3]] = Inr [1, 2, 3, 4, 5, 6]
   \<and> (load_atoms_from_entry en = Inr a \<longrightarrow>
        (\<exists>T cl. stress en = Some T \<and> calc a = Some cl
                \<and> full_3x3_to_voigt_6_stress T = Inr (results_stress cl)))"
proof (intro conjI impI)
  assume "is_shape 3 3 S" and sym: "S ! 1 ! 2 = S ! 2 ! 1" "S ! 0 ! 2 = S ! 2 ! 0"
    "S ! 0 ! 1 = S ! 1 ! 0"
  from nth_of_shape_3_3[OF this(1)] obtain a b c d e f g h i
    where S: "S = [[a, b, c], [d, e, f], [g, h, i]]" by blast
  with sym show "full_3x3_to_voigt_6_stress S =
        Inr [S ! 0 ! 0, S ! 1 ! 1, S ! 2 ! 2, S ! 1 ! 2, S ! 0 ! 2, S ! 0 ! 1]"
    by (simp add: full_3x3_to_voigt_6_stress_def is_rectangular_def)
next
  show "full_3x3_to_voigt_6_stress [[1, 6, 5], [6, 2, 4], [5, 4, 3]] = Inr [1, 2, 3, 4, 5, 6]"
    by (simp add: full_3x3_to_voigt_6_stress_def is_rectangular_def)
next
  assume "load_atoms_from_entry en = Inr a"
  then show "\<exists>T cl. stress en = Some T \<and> calc a = Some cl
                \<and> full_3x3_to_voigt_6_stress T = Inr (results_stress cl)"
    by (auto simp: load_atoms_from_entry_def and_then_def dict_getitem_def
        SinglePointCalculator_new_def split: sum.splits option.splits if_splits)
qed

theorem voigt_order_of_symmetric_tensor_witness:
  "is_shape 3 3 sample_stress
   \<and> sample_stress ! 1 ! 2 = sample_stress ! 2 ! 1
   \<and> sample_stress ! 0 ! 2 = sample_stress ! 2 ! 0
   \<and> sample_stress ! 0 ! 1 = sample_stress ! 1 ! 0
   \<and> full_3x3_to_voigt_6_stress sample_stress = Inr [1, 2, 3, 4, 5, 6]
   \<and> load_atoms_from_entry (sample_entry [3, 8]) = Inr (sample_atoms [3, 8])
   \<and> map_option results_stress (calc (sample_atoms [3, 8])) = Some [1, 2, 3, 4, 5, 6]"
proof -
  have sh: "is_shape 3 3 sample_stress"
    by (simp add: is_shape_def sample_stress_def)
  have sy: "sample_stress ! 1 ! 2 = sample_stress ! 2 ! 1"
    "sample_stress ! 0 ! 2 = sample_stress ! 2 ! 0"
    "sample_stress ! 0 ! 1 = sample_stress ! 1 ! 0"
    by (simp_all add: sample_stress_def)
  have ld: "load_atoms_from_entry (sample_entry [3, 8]) = Inr (sample_atoms [3, 8])"
    by (rule load_sample)
  from voigt_order_of_symmetric_tensor[of sample_stress "sample_entry [3, 8]" "sample_atoms [3, 8]"]
    sh sy ld
  have "full_3x3_to_voigt_6_stress sample_stress =
        Inr [sample_stress ! 0 ! 0, sample_stress ! 1 ! 1, sample_stress ! 2 ! 2,
             sample_stress ! 1 ! 2, sample_stress ! 0 ! 2, sample_stress ! 0 ! 1]"
    by blast
  then have "full_3x3_to_voigt_6_stress sample_stress = Inr [1, 2, 3, 4, 5, 6]"
    by (simp add: sample_stress_def)
  with sh sy ld show ?thesis by (simp add: sample_atoms_def)
qed

subsection \<open>Length, order and determinism of the build\<close>

text \<open>
  Claim C7. The length of a built dataset is at most the number of raw records of the
  split. It is the number of converted structures that the filter accepted, and the
  dataset is a subsequence of the converted structures: nothing is added or repeated.
\<close>

theorem dataset_length_bounded_by_records:
  "source (split cfg) = Inr es \<Longrightarrow> MPTrajDataset_init source cfg = Inr (ds, pb) \<Longrightarrow>
   MPTrajDataset_len ds \<le> int (length es)
   \<and> (\<exists>as. map load_atoms_from_entry es = map Inr as
         \<and> MPTrajDataset_len ds = int (length (filter (\<lambda>a. filter_atoms cfg a = Inr True) as))
         \<and> subseq (atoms_list ds) as)"
proof -
  assume src: "source (split cfg) = Inr es" and "MPTrajDataset_init source cfg = Inr (ds, pb)"
  from this(2) obtain es' as where es': "source (split cfg) = Inr es'"
    and as: "map load_atoms_from_entry es' = map Inr as"
    and ds: "ds = \<lparr>config = cfg, atoms_list = filter (\<lambda>a. filter_atoms cfg a = Inr True) as\<rparr>"
    by (rule init_Inr)
  from src es' have [simp]: "es' = es" by simp
  from as have "length as = length es" using map_eq_imp_length_eq by fastforce
  then have "MPTrajDataset_len ds \<le> int (length es)"
    using length_filter_le[of "\<lambda>a. filter_atoms cfg a = Inr True" as]
    by (simp add: ds MPTrajDataset_len_def)
  moreover have "MPTrajDataset_len ds = int (length (filter (\<lambda>a. filter_atoms cfg a = Inr True) as))"
    by (simp add: ds MPTrajDataset_len_def)
  moreover have "subseq (atoms_list ds) as" by (simp add: ds)
  ultimately show ?thesis using as by auto
qed

theorem dataset_length_bounded_by_records_witness:
  "sample_source [sample_entry [3, 8, 8], sample_entry [3, 3, 8, 8, 8],
                  sample_entry [3, 3, 3, 3, 8, 8, 8, 8, 8, 8]]
     (split \<lparr>split = Train, min_num_atoms = Some 5, max_num_atoms = Some 8, elements = None\<rparr>)
     = Inr [sample_entry [3, 8, 8], sample_entry [3, 3, 8, 8, 8],
            sample_entry [3, 3, 3, 3, 8, 8, 8, 8, 8, 8]]
   \<and> MPTrajDataset_init
       (sample_source [sample_entry [3, 8, 8], sample_entry [3, 3, 8, 8, 8],
                       sample_entry [3, 3, 3, 3, 8, 8, 8, 8, 8, 8]])
       \<lparr>split = Train, min_num_atoms = Some 5, max_num_atoms = Some 8, elements = None\<rparr> =
     Inr (\<lparr>config = \<lparr>split = Train, min_num_atoms = Some 5, max_num_atoms = Some 8,
                     elements = None\<rparr>,
           atoms_list = [sample_atoms [3, 3, 8, 8, 8]]\<rparr>,
          \<lparr>tqdm_n = 3, tqdm_total = 3, tqdm_closed = True\<rparr>)
   \<and> MPTrajDataset_len
       \<lparr>config = \<lparr>split = Train, min_num_atoms = Some 5, max_num_atoms = Some 8,
                     elements = None\<rparr>,
           atoms_list = [sample_atoms [3, 3, 8, 8, 8]]\<rparr> \<le> 3"
proof -
  have s: "sample_source [sample_entry [3, 8, 8], sample_entry [3, 3, 8, 8, 8],
                  sample_entry [3, 3, 3, 3, 8, 8, 8, 8, 8, 8]]
     (split \<lparr>split = Train, min_num_atoms = Some 5, max_num_atoms = Some 8, elements = None\<rparr>)
     = Inr [sample_entry [3, 8, 8], sample_entry [3, 3, 8, 8, 8],
            sample_entry [3, 3, 3, 3, 8, 8, 8, 8, 8, 8]]"
    by (simp add: sample_source_def)
  from dataset_length_bounded_by_records[OF s init_sample_bounded] s init_sample_bounded
  show ?thesis by simp
qed

text \<open>
  Claim C8. With split \<open>train\<close>, \<open>min_num_atoms = 5\<close> and the other two fields unset,
  three records with 3, 5 and 10 atoms give a dataset of length 2 that holds the 5-atom
  structure at index 0 and the 10-atom structure at index 1. For every configuration the
  dataset is the list of converted structures, in the order of the records, with the
  rejected ones left out.
\<close>

theorem survivors_keep_upstream_order:
  "(source Train = Inr [e1, e2, e3] \<longrightarrow>
      load_atoms_from_entry e1 = Inr a1 \<longrightarrow> load_atoms_from_entry e2 = Inr a2 \<longrightarrow>
      load_atoms_from_entry e3 = Inr a3 \<longrightarrow>
      len_atoms a1 = 3 \<longrightarrow> len_atoms a2 = 5 \<longrightarrow> len_atoms a3 = 10 \<longrightarrow>
      (\<exists>ds0 pb0. MPTrajDataset_init source
           \<lparr>split = Train, min_num_atoms = Some 5, max_num_atoms = None, elements = None\<rparr>
           = Inr (ds0, pb0)
         \<and> MPTrajDataset_len ds0 = 2
         \<and> atoms_list ds0 = [a2, a3]
         \<and> fst (MPTrajDataset_getitem ds0 0) = Inr a2
         \<and> fst (MPTrajDataset_getitem ds0 1) = Inr a3))
   \<and> (source (split cfg) = Inr es \<longrightarrow> MPTrajDataset_init source cfg = Inr (ds, pb) \<longrightarrow>
        (\<exists>as. map load_atoms_from_entry es = map Inr as
           \<and> atoms_list ds = filter (\<lambda>a. filter_atoms cfg a = Inr True) as))"
proof (intro conjI impI)
  let ?cfg = "\<lparr>split = Train, min_num_atoms = Some 5, max_num_atoms = None, elements = None\<rparr>"
  assume src: "source Train = Inr [e1, e2, e3]"
    and ld: "load_atoms_from_entry e1 = Inr a1" "load_atoms_from_entry e2 = Inr a2"
      "load_atoms_from_entry e3 = Inr a3"
    and ln: "len_atoms a1 = 3" "len_atoms a2 = 5" "len_atoms a3 = 10"
  from ln have f: "filter_atoms ?cfg a1 = Inr False" "filter_atoms ?cfg a2 = Inr True"
    "filter_atoms ?cfg a3 = Inr True"
    by (simp_all add: filter_atoms_def)
  from src ld f have "MPTrajDataset_init source ?cfg =
      Inr (\<lparr>config = ?cfg, atoms_list = [a2, a3]\<rparr>,
           \<lparr>tqdm_n = 3, tqdm_total = 3, tqdm_closed = True\<rparr>)"
    by (simp add: MPTrajDataset_init_def tqdm_new_def tqdm_update_def tqdm_close_def)
  then show "\<exists>ds0 pb0. MPTrajDataset_init source ?cfg = Inr (ds0, pb0)
         \<and> MPTrajDataset_len ds0 = 2
         \<and> atoms_list ds0 = [a2, a3]
         \<and> fst (MPTrajDataset_getitem ds0 0) = Inr a2
         \<and> fst (MPTrajDataset_getitem ds0 1) = Inr a3"
    by (simp add: MPTrajDataset_len_def MPTrajDataset_getitem_def list_getitem_def)
next
  assume src: "source (split cfg) = Inr es" and "MPTrajDataset_init source cfg = Inr (ds, pb)"
  from this(2) obtain es' as where "source (split cfg) = Inr es'"
    "map load_atoms_from_entry es' = map Inr as"
    "ds = \<lparr>config = cfg, atoms_list = filter (\<lambda>a. filter_atoms cfg a = Inr True) as\<rparr>"
    by (rule init_Inr)
  with src show "\<exists>as. map load_atoms_from_entry es = map Inr as
           \<and> atoms_list ds = filter (\<lambda>a. filter_atoms cfg a = Inr True) as"
    by auto
qed

theorem survivors_keep_upstream_order_witness:
  "sample_source [sample_entry [3, 8, 8], sample_entry [3, 3, 8, 8, 8],
                  sample_entry [3, 3, 3, 3, 8, 8, 8, 8, 8, 8]] Train
     = Inr [sample_entry [3, 8, 8], sample_entry [3, 3, 8, 8, 8],
            sample_entry [3, 3, 3, 3, 8, 8, 8, 8, 8, 8]]
   \<and> load_atoms_from_entry (sample_entry [3, 8, 8]) = Inr (sample_atoms [3, 8, 8])
   \<and> load_atoms_from_entry (sample_entry [3, 3, 8, 8, 8]) = Inr (sample_atoms [3, 3, 8, 8, 8])
   \<and> load_atoms_from_entry (sample_entry [3, 3, 3, 3, 8, 8, 8, 8, 8, 8])
       = Inr (sample_atoms [3, 3, 3, 3, 8, 8, 8, 8, 8, 8])
   \<and> len_atoms (sample_atoms [3, 8, 8]) = 3
   \<and> len_atoms (sample_atoms [3, 3, 8, 8, 8]) = 5
   \<and> len_atoms (sample_atoms [3, 3, 3, 3, 8, 8, 8, 8, 8, 8]) = 10
   \<and> (\<exists>ds0 pb0. MPTrajDataset_init
          (sample_source [sample_entry [3, 8, 8], sample_entry [3, 3, 8, 8, 8],
                          sample_entry [3, 3, 3, 3, 8, 8, 8, 8, 8, 8]])
          \<lparr>split = Train, min_num_atoms = Some 5, max_num_atoms = None, elements = None\<rparr>
          = Inr (ds0, pb0)
        \<and> MPTrajDataset_len ds0 = 2
        \<and> atoms_list ds0 = [sample_atoms [3, 3, 8, 8, 8],
                             sample_atoms [3, 3, 3, 3, 8, 8, 8, 8, 8, 8]]
        \<and> fst (MPTrajDataset_getitem ds0 0) = Inr (sample_atoms [3, 3, 8, 8, 8])
        \<and> fst (MPTrajDataset_getitem ds0 1) = Inr (sample_atoms [3, 3, 3, 3, 8, 8, 8, 8, 8, 8]))"
proof -
  have s: "sample_source [sample_entry [3, 8, 8], sample_entry [3, 3, 8, 8, 8],
                  sample_entry [3, 3, 3, 3, 8, 8, 8, 8, 8, 8]] Train
     = Inr [sample_entry [3, 8, 8], sample_entry [3, 3, 8, 8, 8],
            sample_entry [3, 3, 3, 3, 8, 8, 8, 8, 8, 8]]"
    by (simp add: sample_source_def)
  have l: "len_atoms (sample_atoms [3, 8, 8]) = 3"
    "len_atoms (sample_atoms [3, 3, 8, 8, 8]) = 5"
    "len_atoms (sample_atoms [3, 3, 3, 3, 8, 8, 8, 8, 8, 8]) = 10"
    by (simp_all add: len_sample)
  from survivors_keep_upstream_order
    [of "sample_source [sample_entry [3, 8, 8], sample_entry [3, 3, 8, 8, 8],
                  sample_entry [3, 3, 3, 3, 8, 8, 8, 8, 8, 8]]"
        "sample_entry [3, 8, 8]" "sample_entry [3, 3, 8, 8, 8]"
        "sample_entry [3, 3, 3, 3, 8, 8, 8, 8, 8, 8]"
        "sample_atoms [3, 8, 8]" "sample_atoms [3, 3, 8, 8, 8]"
        "sample_atoms [3, 3, 3, 3, 8, 8, 8, 8, 8, 8]"]
    s l load_sample
  show ?thesis by blast
qed

text \<open>
  Claim C9. The build is a function of the configuration and of the records of the
  configured split: two upstream collections that agree on that split give the same
  result, so two datasets built from them have equal lengths and equal structures at
  every index. The state of the progress bar has no influence on the structures
  collected.
\<close>

theorem build_is_deterministic:
  "(source1 (split cfg) = source2 (split cfg) \<longrightarrow>
      MPTrajDataset_init source1 cfg = MPTrajDataset_init source2 cfg)
   \<and> (source1 (split cfg) = source2 (split cfg) \<longrightarrow>
        MPTrajDataset_init source1 cfg = Inr (d1, p1) \<longrightarrow>
        MPTrajDataset_init source2 cfg = Inr (d2, p2) \<longrightarrow>
        MPTrajDataset_len d1 = MPTrajDataset_len d2
        \<and> (\<forall>i. fst (MPTrajDataset_getitem d1 i) = fst (MPTrajDataset_getitem d2 i)))
   \<and> map_sum id fst (load_loop cfg es (al, pb1)) = map_sum id fst (load_loop cfg es (al, pb2))"
proof (intro conjI impI)
  assume "source1 (split cfg) = source2 (split cfg)"
  then show "MPTrajDataset_init source1 cfg = MPTrajDataset_init source2 cfg"
    by (simp add: MPTrajDataset_init_def)
next
  assume "source1 (split cfg) = source2 (split cfg)"
  then have "MPTrajDataset_init source1 cfg = MPTrajDataset_init source2 cfg"
    by (simp add: MPTrajDataset_init_def)
  moreover assume "MPTrajDataset_init source1 cfg = Inr (d1, p1)"
    "MPTrajDataset_init source2 cfg = Inr (d2, p2)"
  ultimately have "d1 = d2" by simp
  then show "MPTrajDataset_len d1 = MPTrajDataset_len d2"
    and "\<forall>i. fst (MPTrajDataset_getitem d1 i) = fst (MPTrajDataset_getitem d2 i)"
    by simp_all
next
  show "map_sum id fst (load_loop cfg es (al, pb1)) = map_sum id fst (load_loop cfg es (al, pb2))"
    by (rule load_loop_pbar_indep)
qed

theorem build_is_deterministic_witness:
  "sample_source [sample_entry [3, 3, 8, 8, 8]] (split MPTrajDatasetConfig_default)
     = ((sample_source [sample_entry [3, 3, 8, 8, 8]])(Val := Inl (UpstreamError ''offline'')))
         (split MPTrajDatasetConfig_default)
   \<and> MPTrajDataset_init (sample_source [sample_entry [3, 3, 8, 8, 8]]) MPTrajDatasetConfig_default =
       Inr (\<lparr>config = MPTrajDatasetConfig_default, atoms_list = [sample_atoms [3, 3, 8, 8, 8]]\<rparr>,
            \<lparr>tqdm_n = 1, tqdm_total = 1, tqdm_closed = True\<rparr>)
   \<and> MPTrajDataset_init
        ((sample_source [sample_entry [3, 3, 8, 8, 8]])(Val := Inl (UpstreamError ''offline'')))
        MPTrajDatasetConfig_default =
       Inr (\<lparr>config = MPTrajDatasetConfig_default, atoms_list = [sample_atoms [3, 3, 8, 8, 8]]\<rparr>,
            \<lparr>tqdm_n = 1, tqdm_total = 1, tqdm_closed = True\<rparr>)"
proof -
  have s: "sample_source [sample_entry [3, 3, 8, 8, 8]] (split MPTrajDatasetConfig_default)
     = ((sample_source [sample_entry [3, 3, 8, 8, 8]])(Val := Inl (UpstreamError ''offline'')))
         (split MPTrajDatasetConfig_default)"
    by (simp add: MPTrajDatasetConfig_default_def)
  from build_is_deterministic
    [of "sample_source [sample_entry [3, 3, 8, 8, 8]]" MPTrajDatasetConfig_default
        "(sample_source [sample_entry [3, 3, 8, 8, 8]])(Val := Inl (UpstreamError ''offline''))"]
    s init_sample_5
  show ?thesis by simp
qed

end
